theory Spec2Isabelle
  imports Main "HOL-Library.Multiset" "HOL-Library.List_Lexorder" "HOL-Library.Product_Lexorder"
begin

section \<open>Strings\<close>

text \<open>
  The program is \<^verbatim>\<open>src/src/app/page.tsx\<close>. Its strings are modelled as
  \<^typ>\<open>string\<close>, one \<^typ>\<open>char\<close> per character, for ASCII text: the
  built-in \<^verbatim>\<open>toLowerCase\<close> maps \<^verbatim>\<open>A\<close>..\<^verbatim>\<open>Z\<close> to
  \<^verbatim>\<open>a\<close>..\<^verbatim>\<open>z\<close> and leaves every other character alone, and the
  white space that \<^verbatim>\<open>trim\<close> strips is TAB, LF, VT, FF, CR and SPACE. Characters
  beyond ASCII (their case mappings, the Unicode space separators) are outside the model.
\<close>

definition isUpper :: "char \<Rightarrow> bool" where
  "isUpper c = (65 \<le> (of_char c :: nat) \<and> (of_char c :: nat) \<le> 90)"

text \<open>Setting bit 5 adds 32 to the code of an upper-case letter.\<close>

fun lowerChar :: "char \<Rightarrow> char" where
  "lowerChar (Char b0 b1 b2 b3 b4 b5 b6 b7) =
     (if isUpper (Char b0 b1 b2 b3 b4 b5 b6 b7) then Char b0 b1 b2 b3 b4 True b6 b7
      else Char b0 b1 b2 b3 b4 b5 b6 b7)"

definition toLowerCase :: "string \<Rightarrow> string" where
  "toLowerCase str = map lowerChar str"

definition isWhiteSpace :: "char \<Rightarrow> bool" where
  "isWhiteSpace c = ((9 \<le> (of_char c :: nat) \<and> (of_char c :: nat) \<le> 13) \<or> (of_char c :: nat) = 32)"

definition trimStart :: "string \<Rightarrow> string" where
  "trimStart str = dropWhile isWhiteSpace str"

definition trimEnd :: "string \<Rightarrow> string" where
  "trimEnd str = rev (dropWhile isWhiteSpace (rev str))"

definition trim :: "string \<Rightarrow> string" where
  "trim str = trimEnd (trimStart str)"

text \<open>\<^verbatim>\<open>const normalizeString = (str: string): string => str.toLowerCase().trim();\<close>\<close>

definition normalizeString :: "string \<Rightarrow> string" where
  "normalizeString str = trim (toLowerCase str)"

text \<open>\<^verbatim>\<open>Array.prototype.flatMap\<close> and \<^verbatim>\<open>Array.prototype.find\<close> are
  \<open>flatMap\<close> and \<^const>\<open>List.find\<close>.\<close>

definition flatMap :: "('a \<Rightarrow> 'b list) \<Rightarrow> 'a list \<Rightarrow> 'b list" where
  "flatMap f xs = concat (map f xs)"

section \<open>The metadata dataset and the hotlines\<close>

text \<open>
  The interfaces \<^verbatim>\<open>IMetadataResponse\<close> and \<^verbatim>\<open>IHotlinesResponse\<close> are imported
  by the page; their fields are the ones the page reads:
  \<^verbatim>\<open>metadata.metadata.regions[].name\<close>, \<^verbatim>\<open>.provinces[].province\<close>,
  \<^verbatim>\<open>.cities[]\<close>, and the seven fields of a hotline. \<^verbatim>\<open>THotlineCategory\<close> has the
  five members that are the keys of the page's \<^verbatim>\<open>sort\<close> record.
  Several records share field names, as in the source; the later declaration owns the
  short name and the earlier ones are written qualified (\<open>Province.province\<close>,
  \<open>Hotline.city\<close>).
\<close>

record Province =
  province :: string
  cities :: "string list"

record Region =
  name :: string
  provinces :: "Province list"

record IMetadata =
  regions :: "Region list"

record IMetadataResponse =
  metadata :: IMetadata

datatype THotlineCategory =
  police_hotlines | medical_hotlines | fire_hotlines | government_hotlines | utility_hotlines

record Hotline =
  hotlineName :: string
  hotlineNumber :: string
  alternateNumbers :: "string list"
  category :: THotlineCategory
  city :: string
  province :: string
  regionName :: string

text \<open>
  The object passed to \<^verbatim>\<open>updateLocation\<close> is a \<open>Location\<close>; the state
  \<^verbatim>\<open>filterOptions\<close> adds \<^verbatim>\<open>category\<close> to it, and an entry of the city list
  (\<^verbatim>\<open>type LocationFilter\<close>) adds \<^verbatim>\<open>key\<close> and \<^verbatim>\<open>displayName\<close>.
\<close>

record Location =
  region :: string
  province :: string
  city :: string

record FilterOptions = Location +
  category :: string

record LocationFilter = Location +
  key :: string
  displayName :: string

record RegionFilter =
  rf_name :: string
  rf_key :: string

record ProvinceFilter =
  pf_name :: string
  pf_regionName :: string
  pf_key :: string

section \<open>The hierarchy index\<close>

text \<open>Each memoised value starts with \<^verbatim>\<open>if (!metadata) return ...\<close>: the metadata
  is an option. The argument \<open>fo\<close> is the state \<^verbatim>\<open>filterOptions\<close>.\<close>

fun regionFilters :: "IMetadataResponse option \<Rightarrow> RegionFilter list" where
  "regionFilters None = []"
| "regionFilters (Some md) =
     map (\<lambda>r. \<lparr>rf_name = name r, rf_key = normalizeString (name r)\<rparr>) (regions (metadata md))"

fun provinceFilters :: "IMetadataResponse option \<Rightarrow> FilterOptions \<Rightarrow> ProvinceFilter list" where
  "provinceFilters None fo = []"
| "provinceFilters (Some md) fo =
     (let allProvinces =
            flatMap (\<lambda>r. map (\<lambda>p. \<lparr>pf_name = Province.province p, pf_regionName = name r,
                                       pf_key = normalizeString (Province.province p)\<rparr>)
                               (provinces r))
                    (regions (metadata md))
      in if region fo \<noteq> []
         then filter (\<lambda>p. normalizeString (pf_regionName p) = normalizeString (region fo))
                     allProvinces
         else allProvinces)"

text \<open>The template literal \<^verbatim>\<open>`${city}|${data.province}`\<close> is the concatenation
  \<open>city @ ''|'' @ province\<close>; its \<^verbatim>\<open>displayName\<close> is
  \<^verbatim>\<open>`${city} (${data.province})`\<close>.\<close>

definition allCities :: "IMetadataResponse \<Rightarrow> LocationFilter list" where
  "allCities md =
     flatMap (\<lambda>(dregion, dprovince, dcities).
                map (\<lambda>c. \<lparr>region = dregion, province = dprovince, city = c,
                           key = normalizeString (c @ ''|'' @ dprovince),
                           displayName = c @ '' ('' @ dprovince @ '')''\<rparr>)
                    dcities)
       (flatMap (\<lambda>r. map (\<lambda>p. (name r, Province.province p, cities p)) (provinces r))
                (regions (metadata md)))"

fun locationFilters :: "IMetadataResponse option \<Rightarrow> FilterOptions \<Rightarrow> LocationFilter list" where
  "locationFilters None fo = []"
| "locationFilters (Some md) fo =
     (if province fo \<noteq> []
      then filter (\<lambda>c. normalizeString (province c) = normalizeString (province fo))
                  (allCities md)
      else if region fo \<noteq> []
      then filter (\<lambda>c. normalizeString (region c) = normalizeString (region fo))
                  (allCities md)
      else allCities md)"

text \<open>The two lookup maps are JavaScript \<^verbatim>\<open>Map\<close>s filled by nested
  \<^verbatim>\<open>forEach\<close> loops; \<^verbatim>\<open>map.set\<close> overwrites an entry that is already there.\<close>

fun provinceToRegionMap :: "IMetadataResponse option \<Rightarrow> (string \<rightharpoonup> string)" where
  "provinceToRegionMap None = Map.empty"
| "provinceToRegionMap (Some md) =
     fold (\<lambda>r. fold (\<lambda>p m. m(normalizeString (Province.province p) \<mapsto> normalizeString (name r)))
                     (provinces r))
          (regions (metadata md)) Map.empty"

fun cityToLocationMap :: "IMetadataResponse option \<Rightarrow> (string \<rightharpoonup> string \<times> string)" where
  "cityToLocationMap None = Map.empty"
| "cityToLocationMap (Some md) =
     fold (\<lambda>r. fold (\<lambda>p. fold (\<lambda>c m. m(normalizeString (c @ ''|'' @ Province.province p) \<mapsto>
                                          (normalizeString (name r),
                                           normalizeString (Province.province p))))
                               (cities p))
                     (provinces r))
          (regions (metadata md)) Map.empty"

section \<open>The application state\<close>

text \<open>
  The React state of \<^verbatim>\<open>HomeContent\<close>, the \<^verbatim>\<open>lastSavedLocation\<close> item of
  \<^verbatim>\<open>localStorage\<close>, and the messages passed to \<^verbatim>\<open>debugLog\<close> (newest last).
\<close>

datatype JsError =
  TypeError
  | SyntaxError
  | GeolocationNotSupported
  | GeolocationPositionError nat
  | FetchRejected
  | FailedToReverseGeocode

datatype LogEvent =
  GeolocationErrorLogged nat
  | GeolocationCoords
  | DetectedCity "string option"
  | LocationDetectedAndMatched Location
  | CityNotFoundUsingDefaults
  | GeolocationFailed JsError
  | LoadedNewFormat
  | LoadedLegacyFormat string
  | NoStoredLocationUsingDefaults

record AppState =
  filterOptions :: FilterOptions
  regionSelectOpen :: bool
  provinceSelectOpen :: bool
  citySelectOpen :: bool
  isDetectingLocation :: bool
  locationError :: "string option"
  lastSavedLocation :: "string option"
  debugLog :: "LogEvent list"

text \<open>The state the component starts in, with whatever the browser has stored.\<close>

definition initialState :: "string option \<Rightarrow> AppState" where
  "initialState stored =
     \<lparr>filterOptions = \<lparr>region = [], province = [], city = [], category = ''All Hotlines''\<rparr>,
      regionSelectOpen = False, provinceSelectOpen = False, citySelectOpen = False,
      isDetectingLocation = True, locationError = None,
      lastSavedLocation = stored, debugLog = []\<rparr>"

definition logEvent :: "LogEvent \<Rightarrow> AppState \<Rightarrow> AppState" where
  "logEvent e st = st\<lparr>debugLog := debugLog st @ [e]\<rparr>"

text \<open>\<^verbatim>\<open>JSON.stringify\<close> of an object with three string fields. A string is quoted
  with the escapes of ECMAScript's QuoteJSONString.\<close>

definition hexDigit :: "nat \<Rightarrow> char" where
  "hexDigit n = ''0123456789abcdef'' ! (n mod 16)"

definition quoteJSONChar :: "char \<Rightarrow> string" where
  "quoteJSONChar c =
     (let n = (of_char c :: nat) in
      if n = 8 then [CHR 0x5C, CHR ''b'']
      else if n = 9 then [CHR 0x5C, CHR ''t'']
      else if n = 10 then [CHR 0x5C, CHR ''n'']
      else if n = 12 then [CHR 0x5C, CHR ''f'']
      else if n = 13 then [CHR 0x5C, CHR ''r'']
      else if n = 34 then [CHR 0x5C, CHR 0x22]
      else if n = 92 then [CHR 0x5C, CHR 0x5C]
      else if n < 32 then [CHR 0x5C, CHR ''u'', CHR ''0'', CHR ''0'', hexDigit (n div 16), hexDigit n]
      else [c])"

definition quoteJSONString :: "string \<Rightarrow> string" where
  "quoteJSONString str = [CHR 0x22] @ concat (map quoteJSONChar str) @ [CHR 0x22]"

definition JSON_stringify :: "Location \<Rightarrow> string" where
  "JSON_stringify location =
     ''{'' @ quoteJSONString ''region'' @ '':'' @ quoteJSONString (region location) @ '','' @
     quoteJSONString ''province'' @ '':'' @ quoteJSONString (province location) @ '','' @
     quoteJSONString ''city'' @ '':'' @ quoteJSONString (city location) @ ''}''"

text \<open>
  \<^verbatim>\<open>setFilterOptions(prev => ({ ...prev, ...location }));\<close>
  \<^verbatim>\<open>localStorage.setItem('lastSavedLocation', JSON.stringify(location));\<close>
\<close>

definition updateLocation :: "Location \<Rightarrow> AppState \<Rightarrow> AppState" where
  "updateLocation location st =
     st\<lparr>filterOptions := (filterOptions st)\<lparr>region := region location,
                                              province := province location,
                                              city := city location\<rparr>,
        lastSavedLocation := Some (JSON_stringify location)\<rparr>"

section \<open>The filter transitions\<close>

definition handleRegionChange :: "string \<Rightarrow> AppState \<Rightarrow> AppState" where
  "handleRegionChange regionKey st =
     (updateLocation \<lparr>region = regionKey, province = [], city = []\<rparr> st)\<lparr>regionSelectOpen := False\<rparr>"

text \<open>\<^verbatim>\<open>provinceToRegionMap.get(provinceKey) || ''\<close>: an absent entry and an empty
  string both give the empty string.\<close>

definition handleProvinceChange :: "IMetadataResponse option \<Rightarrow> string \<Rightarrow> AppState \<Rightarrow> AppState" where
  "handleProvinceChange md provinceKey st =
     (let foundRegion = (case provinceToRegionMap md provinceKey of
                           None \<Rightarrow> []
                         | Some r \<Rightarrow> if r \<noteq> [] then r else [])
      in (updateLocation \<lparr>region = foundRegion, province = provinceKey, city = []\<rparr> st)
           \<lparr>provinceSelectOpen := False\<rparr>)"

definition handleCityChange :: "IMetadataResponse option \<Rightarrow> string \<Rightarrow> AppState \<Rightarrow> AppState" where
  "handleCityChange md cityKey st =
     (case cityToLocationMap md cityKey of
        None \<Rightarrow> st\<lparr>citySelectOpen := False\<rparr>
      | Some locationData \<Rightarrow>
          (updateLocation \<lparr>region = fst locationData, province = snd locationData, city = cityKey\<rparr> st)
            \<lparr>citySelectOpen := False\<rparr>)"

definition handleClearRegion :: "AppState \<Rightarrow> AppState" where
  "handleClearRegion st = updateLocation \<lparr>region = [], province = [], city = []\<rparr> st"

definition handleClearProvince :: "AppState \<Rightarrow> AppState" where
  "handleClearProvince st =
     updateLocation \<lparr>region = region (filterOptions st), province = [], city = []\<rparr> st"

definition handleClearCity :: "AppState \<Rightarrow> AppState" where
  "handleClearCity st =
     updateLocation \<lparr>region = region (filterOptions st), province = province (filterOptions st),
                     city = []\<rparr> st"

text \<open>The category buttons: \<^verbatim>\<open>category: hotlineCategoryMap[hotlineType] || 'all_hotlines'\<close>
  for each label of the array the buttons are mapped from, and the
  \<^verbatim>\<open>View All Hotlines\<close> button of the empty list.\<close>

definition hotlineCategoryMap :: "string \<rightharpoonup> string" where
  "hotlineCategoryMap =
     [''All Hotlines'' \<mapsto> ''All Hotlines'',
      ''Emergency'' \<mapsto> ''Emergency Hotlines'',
      ''Medical'' \<mapsto> ''Medical Hotlines'',
      ''Government'' \<mapsto> ''Government Hotlines'',
      ''Utility'' \<mapsto> ''Utility Hotlines'']"

definition categoryButtons :: "string list" where
  "categoryButtons = [''All Hotlines'', ''Emergency'', ''Medical'', ''Government'', ''Utility'']"

definition categoryButtonClick :: "string \<Rightarrow> AppState \<Rightarrow> AppState" where
  "categoryButtonClick hotlineType st =
     st\<lparr>filterOptions := (filterOptions st)
          \<lparr>category := (case hotlineCategoryMap hotlineType of
                          None \<Rightarrow> ''all_hotlines''
                        | Some c \<Rightarrow> if c \<noteq> [] then c else ''all_hotlines'')\<rparr>\<rparr>"

definition viewAllHotlinesClick :: "AppState \<Rightarrow> AppState" where
  "viewAllHotlinesClick st = st\<lparr>filterOptions := (filterOptions st)\<lparr>category := ''All Hotlines''\<rparr>\<rparr>"

section \<open>The location resolver\<close>

text \<open>
  What the browser answers is an input of the model: the outcome of
  \<^verbatim>\<open>navigator.geolocation\<close>, the outcome of the \<^verbatim>\<open>fetch\<close> of
  \<^verbatim>\<open>/api/reverse-geocode\<close>, and what \<^verbatim>\<open>JSON.parse\<close> makes of a stored text.
  The coordinates only flow into the request, so a position carries none here.
  \<^verbatim>\<open>localStorage\<close> itself is taken to be available (its calls do not throw).
\<close>

datatype GeoOutcome =
  NoGeolocation
  | PositionFailure nat
  | Position

text \<open>The response: the request rejected, or a response with its \<^verbatim>\<open>ok\<close> flag and its
  body; the body is \<open>None\<close> when \<^verbatim>\<open>response.json()\<close> rejects, else the
  \<^verbatim>\<open>city\<close> field of the data (\<open>None\<close> when it is \<^verbatim>\<open>undefined\<close>). The data
  is taken to be an object and its \<^verbatim>\<open>city\<close>, when present, a string.\<close>

datatype FetchOutcome =
  Rejected
  | Response bool "string option option"

text \<open>A parsed JSON value, as far as the resolver looks at it: \<^verbatim>\<open>null\<close>, an object
  with its string-valued properties, or any other value (reading a property of it gives
  \<^verbatim>\<open>undefined\<close>). Property values that are not strings are outside the model, since
  the fields of \<^verbatim>\<open>filterOptions\<close> are declared as strings.\<close>

datatype JsonValue =
  JsonNull
  | JsonObject "(string \<times> string) list"
  | JsonOther

record Browser =
  geolocation :: GeoOutcome
  reverseGeocode :: FetchOutcome
  JSON_parse :: "string \<Rightarrow> JsonValue option"

definition PERMISSION_DENIED :: nat where "PERMISSION_DENIED = 1"
definition POSITION_UNAVAILABLE :: nat where "POSITION_UNAVAILABLE = 2"
definition TIMEOUT :: nat where "TIMEOUT = 3"

definition getCoords :: "GeoOutcome \<Rightarrow> AppState \<Rightarrow> (JsError + unit) \<times> AppState" where
  "getCoords geo st =
     (case geo of
        NoGeolocation \<Rightarrow>
          (Inl GeolocationNotSupported,
           st\<lparr>locationError := Some ''Your browser does not support location detection''\<rparr>)
      | PositionFailure code \<Rightarrow>
          (let errorMessage =
                 (if code = PERMISSION_DENIED
                  then ''Location access was denied. Enable location permissions to show hotlines for your current location.''
                  else if code = POSITION_UNAVAILABLE then ''Location information is unavailable.''
                  else if code = TIMEOUT then ''Location request timed out.''
                  else ''Could not detect your location'')
           in (Inl (GeolocationPositionError code),
               logEvent (GeolocationErrorLogged code) (st\<lparr>locationError := Some errorMessage\<rparr>)))
      | Position \<Rightarrow> (Inr (), st))"

text \<open>\<^verbatim>\<open>regions[0]\<close> and \<^verbatim>\<open>provinces[0]\<close> of an empty array are
  \<^verbatim>\<open>undefined\<close>, and reading a property of them throws a TypeError;
  \<^verbatim>\<open>cities[0]\<close> of an empty array is \<^verbatim>\<open>undefined\<close>, which the template literal
  prints.\<close>

definition getDefaultLocation :: "IMetadataResponse \<Rightarrow> JsError + Location" where
  "getDefaultLocation md =
     (case regions (metadata md) of
        [] \<Rightarrow> Inl TypeError
      | r # _ \<Rightarrow>
          (case provinces r of
             [] \<Rightarrow> Inl TypeError
           | p # _ \<Rightarrow>
               (let defaultRegion = name r;
                    defaultProvince = Province.province p;
                    defaultCity = (case cities p of [] \<Rightarrow> ''undefined'' | c # _ \<Rightarrow> c)
                in Inr \<lparr>region = normalizeString defaultRegion,
                        province = normalizeString defaultProvince,
                        city = normalizeString (defaultCity @ ''|'' @ defaultProvince)\<rparr>)))"

text \<open>The two nested \<^verbatim>\<open>for\<close> loops of \<^verbatim>\<open>findLocationInMetadata\<close>.
  \<^verbatim>\<open>if (cityMatch)\<close> tests the found string, so an empty city name never matches.\<close>

fun findInProvinces :: "string \<Rightarrow> Region \<Rightarrow> Province list \<Rightarrow> Location option" where
  "findInProvinces normalizedCity r [] = None"
| "findInProvinces normalizedCity r (p # ps) =
     (case find (\<lambda>c. normalizeString c = normalizedCity) (cities p) of
        None \<Rightarrow> findInProvinces normalizedCity r ps
      | Some cityMatch \<Rightarrow>
          if cityMatch \<noteq> []
          then Some \<lparr>region = normalizeString (name r),
                     province = normalizeString (Province.province p),
                     city = normalizeString (cityMatch @ ''|'' @ Province.province p)\<rparr>
          else findInProvinces normalizedCity r ps)"

fun findInRegions :: "string \<Rightarrow> Region list \<Rightarrow> Location option" where
  "findInRegions normalizedCity [] = None"
| "findInRegions normalizedCity (r # rs) =
     (case findInProvinces normalizedCity r (provinces r) of
        None \<Rightarrow> findInRegions normalizedCity rs
      | Some l \<Rightarrow> Some l)"

definition findLocationInMetadata :: "IMetadataResponse \<Rightarrow> string \<Rightarrow> Location option" where
  "findLocationInMetadata md cityName = findInRegions (normalizeString cityName) (regions (metadata md))"

text \<open>
  The \<^verbatim>\<open>catch\<close> block of \<^verbatim>\<open>getLocation\<close>. \<^verbatim>\<open>if (stored)\<close> holds for a
  stored text that is not empty. When \<^verbatim>\<open>JSON.parse\<close> throws, the inner
  \<^verbatim>\<open>catch\<close> takes the text as a legacy city. A parsed \<^verbatim>\<open>null\<close> makes the state
  updater throw when React runs it, which is outside both \<^verbatim>\<open>try\<close> blocks. An error
  of \<^verbatim>\<open>getDefaultLocation\<close> in this block is not caught either.
\<close>

definition loadStoredLocation :: "IMetadataResponse \<Rightarrow> Browser \<Rightarrow> JsError \<Rightarrow> AppState \<Rightarrow> JsError + AppState" where
  "loadStoredLocation md browser err st0 =
     (let st = logEvent (GeolocationFailed err) st0 in
      case lastSavedLocation st of
        Some stored \<Rightarrow>
          if stored \<noteq> [] then
            (case JSON_parse browser stored of
               Some locationData \<Rightarrow>
                 (case locationData of
                    JsonNull \<Rightarrow> Inl TypeError
                  | JsonObject props \<Rightarrow>
                      (let prop = (\<lambda>k. case map_of props k of None \<Rightarrow> [] | Some v \<Rightarrow> v);
                           st1 = logEvent LoadedNewFormat st
                       in Inr (st1\<lparr>filterOptions := (filterOptions st1)
                                     \<lparr>region := prop ''region'', province := prop ''province'',
                                      city := prop ''city''\<rparr>,
                                   isDetectingLocation := False\<rparr>))
                  | JsonOther \<Rightarrow>
                      (let st1 = logEvent LoadedNewFormat st
                       in Inr (st1\<lparr>filterOptions := (filterOptions st1)
                                     \<lparr>region := [], province := [], city := []\<rparr>,
                                   isDetectingLocation := False\<rparr>)))
             | None \<Rightarrow>
                 (let st1 = logEvent (LoadedLegacyFormat stored) st
                  in Inr (st1\<lparr>filterOptions := (filterOptions st1)\<lparr>city := normalizeString stored\<rparr>,
                              isDetectingLocation := False\<rparr>)))
          else
            (case getDefaultLocation md of
               Inl e \<Rightarrow> Inl e
             | Inr d \<Rightarrow>
                 Inr ((updateLocation d (logEvent NoStoredLocationUsingDefaults st))
                        \<lparr>isDetectingLocation := False\<rparr>))
      | None \<Rightarrow>
          (case getDefaultLocation md of
             Inl e \<Rightarrow> Inl e
           | Inr d \<Rightarrow>
               Inr ((updateLocation d (logEvent NoStoredLocationUsingDefaults st))
                      \<lparr>isDetectingLocation := False\<rparr>)))"

text \<open>
  \<^verbatim>\<open>getLocation\<close>: the \<^verbatim>\<open>try\<close> block, every throw of which enters the
  \<^verbatim>\<open>catch\<close> block above with the state reached so far.
  \<^verbatim>\<open>normalizeString(undefined)\<close> throws a TypeError.
\<close>

definition getLocation :: "IMetadataResponse \<Rightarrow> Browser \<Rightarrow> AppState \<Rightarrow> JsError + AppState" where
  "getLocation md browser st0 =
     (case getCoords (geolocation browser) st0 of
        (Inl err, st) \<Rightarrow> loadStoredLocation md browser err st
      | (Inr _, st) \<Rightarrow>
          (let st1 = logEvent GeolocationCoords st in
           case reverseGeocode browser of
             Rejected \<Rightarrow> loadStoredLocation md browser FetchRejected st1
           | Response ok body \<Rightarrow>
               if \<not> ok then loadStoredLocation md browser FailedToReverseGeocode st1
               else
                 (case body of
                    None \<Rightarrow> loadStoredLocation md browser SyntaxError st1
                  | Some dataCity \<Rightarrow>
                      (let st2 = logEvent (DetectedCity dataCity) st1 in
                       case dataCity of
                         None \<Rightarrow> loadStoredLocation md browser TypeError st2
                       | Some cityName \<Rightarrow>
                           (case findLocationInMetadata md cityName of
                              Some matchedLocation \<Rightarrow>
                                Inr ((updateLocation matchedLocation
                                        (logEvent (LocationDetectedAndMatched matchedLocation) st2))
                                       \<lparr>isDetectingLocation := False\<rparr>)
                            | None \<Rightarrow>
                                (case getDefaultLocation md of
                                   Inl e \<Rightarrow>
                                     loadStoredLocation md browser e
                                       (logEvent CityNotFoundUsingDefaults st2)
                                 | Inr d \<Rightarrow>
                                     Inr ((updateLocation d (logEvent CityNotFoundUsingDefaults st2))
                                            \<lparr>isDetectingLocation := False\<rparr>)))))))"

section \<open>The hotline filter\<close>

text \<open>\<^verbatim>\<open>String.prototype.split\<close> by a one-character separator: the first piece and
  the list of the others (the result is never empty).\<close>

fun split_on :: "char \<Rightarrow> string \<Rightarrow> string \<times> string list" where
  "split_on sep [] = ([], [])"
| "split_on sep (c # cs) =
     (case split_on sep cs of
        (piece, pieces) \<Rightarrow> if c = sep then ([], piece # pieces) else (c # piece, pieces))"

text \<open>\<^verbatim>\<open>const [city, province] = filterValue.split('|')\<close> takes the first two pieces;
  without a separator the \<^verbatim>\<open>province\<close> property is absent.\<close>

definition extractLocationFromFilter :: "string \<Rightarrow> string \<times> string option" where
  "extractLocationFromFilter filterValue =
     (if CHR ''|'' \<in> set filterValue
      then (case split_on CHR ''|'' filterValue of
              (c, pieces) \<Rightarrow> (c, case pieces of [] \<Rightarrow> None | p # _ \<Rightarrow> Some p))
      else (filterValue, None))"

text \<open>The callback of \<^verbatim>\<open>hotlines.hotlines.filter\<close>; \<open>fo\<close> is the
  state \<^verbatim>\<open>filterOptions\<close>. A condition such as
  \<^verbatim>\<open>if (filterOptions.region)\<close> or \<^verbatim>\<open>if (locationFromFilter.province)\<close> holds
  for a string that is present and not empty.\<close>

definition hotlineInLocation :: "FilterOptions \<Rightarrow> Hotline \<Rightarrow> bool" where
  "hotlineInLocation fo hotline =
     (if region fo \<noteq> [] \<and>
         normalizeString (regionName hotline) \<noteq> normalizeString (region fo)
      then False
      else if province fo \<noteq> [] \<and>
         normalizeString (Hotline.province hotline) \<noteq> normalizeString (province fo)
      then False
      else if city fo \<noteq> [] then
        (case extractLocationFromFilter (city fo) of
           (fcity, Some fprovince) \<Rightarrow>
             if fprovince \<noteq> []
             then normalizeString (Hotline.city hotline) = normalizeString fcity \<and>
                  normalizeString (Hotline.province hotline) = normalizeString fprovince
             else normalizeString (Hotline.city hotline) = normalizeString fcity
         | (fcity, None) \<Rightarrow> normalizeString (Hotline.city hotline) = normalizeString fcity)
      else True)"

definition hotlineTypeMap :: "string \<rightharpoonup> THotlineCategory list" where
  "hotlineTypeMap =
     [''Emergency Hotlines'' \<mapsto> [police_hotlines, fire_hotlines],
      ''Medical Hotlines'' \<mapsto> [medical_hotlines],
      ''Government Hotlines'' \<mapsto> [government_hotlines],
      ''Utility Hotlines'' \<mapsto> [utility_hotlines]]"

text \<open>
  The location filter, then the category filter. For a category without an entry
  \<^verbatim>\<open>hotlineTypeMap[filterOptions.category]\<close> is \<^verbatim>\<open>undefined\<close> and calling
  \<^verbatim>\<open>.includes\<close> on it throws a TypeError; the callback runs once per hotline, so
  nothing throws on an empty list. (A name inherited from \<^verbatim>\<open>Object.prototype\<close> gives
  a value without an \<^verbatim>\<open>includes\<close> method, and the call throws a TypeError as well.)
\<close>

definition selectedHotlines :: "Hotline list \<Rightarrow> FilterOptions \<Rightarrow> JsError + Hotline list" where
  "selectedHotlines hotlines fo =
     (let selected = filter (hotlineInLocation fo) hotlines in
      if category fo \<noteq> ''All Hotlines'' then
        (case hotlineTypeMap (category fo) of
           None \<Rightarrow> if selected = [] then Inr [] else Inl TypeError
         | Some categories \<Rightarrow>
             Inr (filter (\<lambda>hotline. Hotline.category hotline \<in> set categories) selected))
      else Inr selected)"

text \<open>The record \<^verbatim>\<open>sort\<close> of the page.\<close>

fun sortRank :: "THotlineCategory \<Rightarrow> int" where
  "sortRank police_hotlines = 0"
| "sortRank medical_hotlines = 1"
| "sortRank fire_hotlines = 2"
| "sortRank government_hotlines = 3"
| "sortRank utility_hotlines = 4"

text \<open>
  \<^verbatim>\<open>a.localeCompare(b, 'en', { sensitivity: 'base' })\<close> compares two strings with
  the host's collation for the locale, at base sensitivity. The collation tables are the
  host's, not the program's, so the collation is a parameter of the model. In the Unicode
  Collation Algorithm that the host implements, two strings compare as their sort keys
  do: the parameter is the function from a string to its sort key at base sensitivity, a
  list of weights, and sort keys compare lexicographically. Nothing is assumed about the
  weights. Only the sign of the result reaches the sort.
\<close>

type_synonym Collator = "string \<Rightarrow> nat list"

definition localeCompare :: "Collator \<Rightarrow> string \<Rightarrow> string \<Rightarrow> int" where
  "localeCompare collator a b =
     (if collator a < collator b then - 1 else if collator b < collator a then 1 else 0)"

definition compareHotlines :: "Collator \<Rightarrow> Hotline \<Rightarrow> Hotline \<Rightarrow> int" where
  "compareHotlines collator a b =
     (let categoryDiff = sortRank (Hotline.category a) - sortRank (Hotline.category b)
      in if categoryDiff \<noteq> 0 then categoryDiff
         else localeCompare collator (hotlineName a) (hotlineName b))"

text \<open>
  \<^verbatim>\<open>Array.prototype.sort\<close> is a stable sort (ECMAScript 2019). For a comparator that
  is a total preorder, as \<open>compareHotlines\<close> is for every collation, its result is the
  one stable sorted arrangement of the array; the model computes it by stable insertion
  from the right.
\<close>

fun insertSorted :: "('a \<Rightarrow> 'a \<Rightarrow> int) \<Rightarrow> 'a \<Rightarrow> 'a list \<Rightarrow> 'a list" where
  "insertSorted cmp x [] = [x]"
| "insertSorted cmp x (y # ys) =
     (if cmp x y \<le> 0 then x # y # ys else y # insertSorted cmp x ys)"

definition Array_sort :: "('a \<Rightarrow> 'a \<Rightarrow> int) \<Rightarrow> 'a list \<Rightarrow> 'a list" where
  "Array_sort cmp xs = foldr (insertSorted cmp) xs []"

definition sortedSelectedHotlines ::
  "Collator \<Rightarrow> Hotline list \<Rightarrow> FilterOptions \<Rightarrow> JsError + Hotline list" where
  "sortedSelectedHotlines collator hotlines fo =
     (case selectedHotlines hotlines fo of
        Inl e \<Rightarrow> Inl e
      | Inr selected \<Rightarrow> Inr (Array_sort (compareHotlines collator) selected))"

section \<open>Example data\<close>

text \<open>The filter state before any selection, and the dataset of the specification's
  scenarios: region NCR, province Metro Manila, cities Manila and Quezon City.\<close>

definition unsetFilter :: FilterOptions where
  "unsetFilter = \<lparr>region = [], province = [], city = [], category = ''All Hotlines''\<rparr>"

definition exampleMetadata :: IMetadataResponse where
  "exampleMetadata =
     \<lparr>metadata = \<lparr>regions =
        [\<lparr>name = ''NCR'',
          provinces = [\<lparr>Province.province = ''Metro Manila'',
                        cities = [''Manila'', ''Quezon City'']\<rparr>]\<rparr>]\<rparr>\<rparr>"

text \<open>A dataset whose only city name ends with a space.\<close>

definition trailingSpaceMetadata :: IMetadataResponse where
  "trailingSpaceMetadata =
     \<lparr>metadata = \<lparr>regions =
        [\<lparr>name = ''NCR'',
          provinces = [\<lparr>Province.province = ''Metro Manila'', cities = [''Manila '']\<rparr>]\<rparr>]\<rparr>\<rparr>"

text \<open>A dataset in which the province name Laguna appears under two regions.\<close>

definition regionA :: Region where
  "regionA = \<lparr>name = ''Region A'',
               provinces = [\<lparr>Province.province = ''Laguna'', cities = [''Calamba'']\<rparr>]\<rparr>"

definition regionB :: Region where
  "regionB = \<lparr>name = ''Region B'',
               provinces = [\<lparr>Province.province = ''Laguna'', cities = [''Binan'']\<rparr>]\<rparr>"

definition regionC :: Region where
  "regionC = \<lparr>name = ''Region C'',
               provinces = [\<lparr>Province.province = ''Cavite'', cities = [''Bacoor'']\<rparr>]\<rparr>"

definition duplicateProvinceMetadata :: IMetadataResponse where
  "duplicateProvinceMetadata = \<lparr>metadata = \<lparr>regions = [regionA, regionB, regionC]\<rparr>\<rparr>"

text \<open>Two hotlines of the city Manila, in different provinces.\<close>

definition manilaMetroManila :: Hotline where
  "manilaMetroManila =
     \<lparr>hotlineName = ''Manila Police District'', hotlineNumber = ''8523-3378'',
      alternateNumbers = [], category = police_hotlines, city = ''Manila'',
      province = ''Metro Manila'', regionName = ''NCR''\<rparr>"

definition manilaMetroCebu :: Hotline where
  "manilaMetroCebu =
     \<lparr>hotlineName = ''Manila Fire Station'', hotlineNumber = ''160'',
      alternateNumbers = [], category = fire_hotlines, city = ''Manila'',
      province = ''Metro Cebu'', regionName = ''Region VII''\<rparr>"

text \<open>Two police hotlines whose names differ in case only, and a hospital.\<close>

definition pnpUpper :: Hotline where
  "pnpUpper =
     \<lparr>hotlineName = ''PNP'', hotlineNumber = ''117'', alternateNumbers = [],
      category = police_hotlines, city = ''Manila'', province = ''Metro Manila'',
      regionName = ''NCR''\<rparr>"

definition pnpLower :: Hotline where
  "pnpLower =
     \<lparr>hotlineName = ''pnp'', hotlineNumber = ''911'', alternateNumbers = [],
      category = police_hotlines, city = ''Quezon City'', province = ''Metro Manila'',
      regionName = ''NCR''\<rparr>"

definition manilaHospital :: Hotline where
  "manilaHospital =
     \<lparr>hotlineName = ''Ospital ng Maynila'', hotlineNumber = ''8524-6061'', alternateNumbers = [],
      category = medical_hotlines, city = ''Manila'', province = ''Metro Manila'',
      regionName = ''NCR''\<rparr>"

text \<open>
  A collation for the evaluated examples. On names made of ASCII letters and spaces the
  \<^verbatim>\<open>en\<close> collation at base sensitivity ignores letter case, puts the space before
  every letter and the letters in alphabetical order, so on such names the codes of the
  lower-cased name order as the host's sort keys do. The examples use it on such names
  only; digits, punctuation, control characters and accented letters have other weights
  in the host.
\<close>

definition lettersCollator :: Collator where
  "lettersCollator str = map of_char (toLowerCase str)"

text \<open>A dataset in which the same city of the same province name appears under two
  regions.\<close>

definition regionD :: Region where
  "regionD = \<lparr>name = ''Region D'',
               provinces = [\<lparr>Province.province = ''Laguna'', cities = [''Calamba'']\<rparr>]\<rparr>"

definition duplicateCityMetadata :: IMetadataResponse where
  "duplicateCityMetadata = \<lparr>metadata = \<lparr>regions = [regionA, regionD, regionC]\<rparr>\<rparr>"

text \<open>Two browsers: one that reports a position and reverse-geocodes it to the given
  city, and one whose user denied the permission and whose request fails. In both,
  \<^verbatim>\<open>JSON.parse\<close> throws on the bare word \<^verbatim>\<open>manila\<close>, which is not JSON.\<close>

definition geocodedBrowser :: "string \<Rightarrow> Browser" where
  "geocodedBrowser cityName =
     \<lparr>geolocation = Position,
      reverseGeocode = Response True (Some (Some cityName)),
      JSON_parse = (\<lambda>text. if text = ''manila'' then None else Some JsonOther)\<rparr>"

definition permissionDeniedBrowser :: Browser where
  "permissionDeniedBrowser =
     \<lparr>geolocation = PositionFailure PERMISSION_DENIED,
      reverseGeocode = Rejected,
      JSON_parse = (\<lambda>text. if text = ''manila'' then None else Some JsonOther)\<rparr>"

section \<open>Auxiliary definitions\<close>

text \<open>Two notions used in the proofs about the filter: the pair that
  \<open>compareHotlines\<close> compares (category rank, then the sort key of the name), and the
  predicate that the two filter passes together apply to a hotline.\<close>

definition sortKey :: "Collator \<Rightarrow> Hotline \<Rightarrow> int \<times> nat list" where
  "sortKey collator h = (sortRank (Hotline.category h), collator (hotlineName h))"

definition keptBy :: "FilterOptions \<Rightarrow> Hotline \<Rightarrow> bool" where
  "keptBy fo h =
     (hotlineInLocation fo h \<and>
      (category fo \<noteq> ''All Hotlines'' \<longrightarrow>
        (case hotlineTypeMap (category fo) of None \<Rightarrow> False
         | Some categories \<Rightarrow> Hotline.category h \<in> set categories)))"

section \<open>Normalisation\<close>

lemmas string_evals = normalizeString_def trim_def trimStart_def trimEnd_def toLowerCase_def
  isWhiteSpace_def isUpper_def

lemma lowerChar_cases:
  "lowerChar c = c \<or> (isUpper c \<and> (of_char (lowerChar c) :: nat) = of_char c + 32)"
  by (cases c) (auto simp: isUpper_def)

lemma isWhiteSpace_lowerChar: "isWhiteSpace (lowerChar c) = isWhiteSpace c"
  using lowerChar_cases [of c] by (auto simp: isWhiteSpace_def isUpper_def)

lemma bar_not_space: "\<not> isWhiteSpace CHR ''|''"
  by (simp add: isWhiteSpace_def)

lemma lowerChar_bar: "lowerChar CHR ''|'' = CHR ''|''"
  by (simp add: isUpper_def)

lemma trimStart_join: "\<not> isWhiteSpace s \<Longrightarrow> trimStart (a @ s # b) = trimStart a @ s # b"
  by (auto simp: trimStart_def dropWhile_append)

lemma trimEnd_join: "\<not> isWhiteSpace s \<Longrightarrow> trimEnd (a @ s # b) = a @ s # trimEnd b"
  by (auto simp: trimEnd_def dropWhile_append)

lemma trim_join: "\<not> isWhiteSpace s \<Longrightarrow> trim (a @ s # b) = trimStart a @ s # trimEnd b"
  by (simp add: trim_def trimStart_join trimEnd_join)

text \<open>Normalising the joined text trims the city on the left only and the province on the
  right only: the separator shields the inner ends.\<close>

lemma normalizeString_join:
  "normalizeString (c @ ''|'' @ p) = trimStart (toLowerCase c) @ ''|'' @ trimEnd (toLowerCase p)"
  using trim_join [OF bar_not_space] lowerChar_bar
  by (simp add: normalizeString_def toLowerCase_def)

lemma trimEnd_id: "s = [] \<or> \<not> isWhiteSpace (last s) \<Longrightarrow> trimEnd s = s"
  by (cases s rule: rev_cases) (auto simp: trimEnd_def)

lemma trimStart_id: "s = [] \<or> \<not> isWhiteSpace (hd s) \<Longrightarrow> trimStart s = s"
  by (cases s) (auto simp: trimStart_def)

lemma trimStart_last: "trimStart s = [] \<or> last (trimStart s) = last s"
  unfolding trimStart_def by (induction s) auto

lemma normalizeString_no_trailing:
  assumes "c = [] \<or> \<not> isWhiteSpace (last c)"
  shows "normalizeString c = trimStart (toLowerCase c)"
proof -
  let ?l = "toLowerCase c"
  have "?l = [] \<or> \<not> isWhiteSpace (last ?l)"
    using assms by (auto simp: toLowerCase_def last_map isWhiteSpace_lowerChar)
  with trimStart_last [of ?l]
  have "trimStart ?l = [] \<or> \<not> isWhiteSpace (last (trimStart ?l))"
    by (auto simp: trimStart_def)
  then show ?thesis
    by (simp add: normalizeString_def trim_def trimEnd_id)
qed

lemma normalizeString_no_leading:
  assumes "p = [] \<or> \<not> isWhiteSpace (hd p)"
  shows "normalizeString p = trimEnd (toLowerCase p)"
proof -
  have "toLowerCase p = [] \<or> \<not> isWhiteSpace (hd (toLowerCase p))"
    using assms by (auto simp: toLowerCase_def hd_map isWhiteSpace_lowerChar)
  then show ?thesis
    by (simp add: normalizeString_def trim_def trimStart_id)
qed

section \<open>The lookup maps as association lists\<close>

lemma fold_upd_map_of:
  "fold (\<lambda>x m. m(K x \<mapsto> V x)) xs m = m ++ map_of (rev (map (\<lambda>x. (K x, V x)) xs))"
  by (induction xs arbitrary: m)
     (auto simp: map_add_upd_left map_add_def fun_eq_iff split: option.splits)

lemma fold2_upd_map_of:
  "fold (\<lambda>r. fold (\<lambda>p m. m(K r p \<mapsto> V r p)) (ps r)) rs m =
   m ++ map_of (rev (concat (map (\<lambda>r. map (\<lambda>p. (K r p, V r p)) (ps r)) rs)))"
proof (induction rs arbitrary: m)
  case Nil
  then show ?case by simp
next
  case (Cons r rs)
  let ?F = "\<lambda>r. fold (\<lambda>p m. m(K r p \<mapsto> V r p)) (ps r)"
  let ?L = "\<lambda>r. map (\<lambda>p. (K r p, V r p)) (ps r)"
  have "fold ?F (r # rs) m = fold ?F rs (?F r m)"
    by (simp only: fold.simps comp_apply)
  also have "\<dots> = (m ++ map_of (rev (?L r))) ++ map_of (rev (concat (map ?L rs)))"
    by (simp only: Cons.IH fold_upd_map_of)
  also have "\<dots> = m ++ map_of (rev (concat (map ?L (r # rs))))"
    by (simp add: map_of_append)
  finally show ?case .
qed

lemma fold3_upd_map_of:
  "fold (\<lambda>r. fold (\<lambda>p. fold (\<lambda>c m. m(K r p c \<mapsto> V r p c)) (cs p)) (ps r)) rs m =
   m ++ map_of (rev (concat (map (\<lambda>r. concat (map (\<lambda>p. map (\<lambda>c. (K r p c, V r p c)) (cs p))
                                                  (ps r))) rs)))"
proof (induction rs arbitrary: m)
  case Nil
  then show ?case by simp
next
  case (Cons r rs)
  let ?F = "\<lambda>r. fold (\<lambda>p. fold (\<lambda>c m. m(K r p c \<mapsto> V r p c)) (cs p)) (ps r)"
  let ?L = "\<lambda>r. concat (map (\<lambda>p. map (\<lambda>c. (K r p c, V r p c)) (cs p)) (ps r))"
  have "fold ?F (r # rs) m = fold ?F rs (?F r m)"
    by (simp only: fold.simps comp_apply)
  also have "\<dots> = (m ++ map_of (rev (?L r))) ++ map_of (rev (concat (map ?L rs)))"
    by (simp only: Cons.IH fold2_upd_map_of)
  also have "\<dots> = m ++ map_of (rev (concat (map ?L (r # rs))))"
    by (simp add: map_of_append)
  finally show ?case .
qed

text \<open>The pairs that \<open>cityToLocationMap\<close> stores are, in order, the entries of the full
  city list.\<close>

lemma allCities_flat:
  "map (\<lambda>e. (key e, (normalizeString (region e), normalizeString (province e)))) (allCities md) =
   concat (map (\<lambda>r. concat (map (\<lambda>p. map (\<lambda>c. (normalizeString (c @ ''|'' @ Province.province p),
                                             (normalizeString (name r),
                                              normalizeString (Province.province p))))
                                      (cities p))
                               (provinces r)))
               (regions (metadata md)))"
proof -
  let ?entry = "\<lambda>(dregion, dprovince, dcities).
                map (\<lambda>c. \<lparr>region = dregion, province = dprovince, city = c,
                           key = normalizeString (c @ ''|'' @ dprovince),
                           displayName = c @ '' ('' @ dprovince @ '')''\<rparr>)
                    dcities"
  let ?pair = "\<lambda>e. (key e, (normalizeString (region e), normalizeString (province e)))"
  let ?cs = "\<lambda>r p. map (\<lambda>c. (normalizeString (c @ ''|'' @ Province.province p),
                              (normalizeString (name r), normalizeString (Province.province p))))
                      (cities p)"
  have inner: "map ?pair (flatMap ?entry (map (\<lambda>p. (name r, Province.province p, cities p)) ps)) =
      concat (map (?cs r) ps)" for r ps
    by (induction ps) (simp_all add: flatMap_def)
  have outer: "map ?pair (flatMap ?entry
          (flatMap (\<lambda>r. map (\<lambda>p. (name r, Province.province p, cities p)) (provinces r)) rs)) =
      concat (map (\<lambda>r. concat (map (?cs r) (provinces r))) rs)" for rs
  proof (induction rs)
    case Nil
    then show ?case by (simp add: flatMap_def)
  next
    case (Cons r rs)
    then show ?case using inner [of r "provinces r"]
      by (simp add: flatMap_def)
  qed
  show ?thesis unfolding allCities_def by (rule outer)
qed

lemma cityToLocationMap_map_of:
  "cityToLocationMap (Some md) =
   map_of (rev (map (\<lambda>e. (key e, (normalizeString (region e), normalizeString (province e))))
                    (allCities md)))"
  by (simp only: allCities_flat cityToLocationMap.simps fold3_upd_map_of empty_map_add)

lemma provinceToRegionMap_map_of:
  "provinceToRegionMap (Some md) =
   map_of (rev (concat (map (\<lambda>r. map (\<lambda>p. (normalizeString (Province.province p),
                                          normalizeString (name r)))
                                   (provinces r))
                            (regions (metadata md)))))"
  by (simp only: provinceToRegionMap.simps fold2_upd_map_of empty_map_add)

lemma set_allCities:
  "set (allCities md) =
   {\<lparr>region = name r, province = Province.province p, city = c,
      key = normalizeString (c @ ''|'' @ Province.province p),
      displayName = c @ '' ('' @ Province.province p @ '')''\<rparr> | r p c.
      r \<in> set (regions (metadata md)) \<and> p \<in> set (provinces r) \<and> c \<in> set (cities p)}"
  by (auto simp: allCities_def flatMap_def)

lemma locationFilters_subset: "set (locationFilters (Some md) fo) \<subseteq> set (allCities md)"
  by auto

lemma locationFilters_key:
  "e \<in> set (locationFilters (Some md) fo) \<Longrightarrow> key e = normalizeString (city e @ ''|'' @ province e)"
  using locationFilters_subset [of md fo] by (auto simp: set_allCities)

lemma cityToLocationMap_entry:
  assumes "cityToLocationMap (Some md) k = Some v"
  shows "\<exists>e \<in> set (allCities md).
           k = key e \<and> v = (normalizeString (region e), normalizeString (province e))"
proof -
  from assms
  have "(k, v) \<in> set (rev (map (\<lambda>e. (key e, (normalizeString (region e),
                                             normalizeString (province e)))) (allCities md)))"
    unfolding cityToLocationMap_map_of by (rule map_of_SomeD)
  then show ?thesis by auto
qed

section \<open>The hierarchy match and the dataset default\<close>

lemma findInProvinces_city:
  "findInProvinces n r ps = Some l \<Longrightarrow>
   \<exists>p \<in> set ps. \<exists>c \<in> set (cities p). normalizeString c = n \<and>
      l = \<lparr>region = normalizeString (name r), province = normalizeString (Province.province p),
           city = normalizeString (c @ ''|'' @ Province.province p)\<rparr>"
proof (induction ps)
  case Nil
  then show ?case by simp
next
  case (Cons p ps)
  show ?case
  proof (cases "find (\<lambda>c. normalizeString c = n) (cities p)")
    case None
    with Cons show ?thesis by auto
  next
    case (Some c)
    then have c: "c \<in> set (cities p)" "normalizeString c = n"
      by (auto simp: find_Some_iff)
    show ?thesis
    proof (cases "c = []")
      case True
      with Some Cons show ?thesis by auto
    next
      case False
      with Some Cons.prems c show ?thesis by auto
    qed
  qed
qed

lemma findInRegions_city:
  "findInRegions n rs = Some l \<Longrightarrow>
   \<exists>r \<in> set rs. \<exists>p \<in> set (provinces r). \<exists>c \<in> set (cities p). normalizeString c = n \<and>
      l = \<lparr>region = normalizeString (name r), province = normalizeString (Province.province p),
           city = normalizeString (c @ ''|'' @ Province.province p)\<rparr>"
proof (induction rs)
  case Nil
  then show ?case by simp
next
  case (Cons r rs)
  show ?case
  proof (cases "findInProvinces n r (provinces r)")
    case None
    with Cons show ?thesis by auto
  next
    case (Some l')
    with Cons.prems have "l' = l" by simp
    with Some findInProvinces_city [of n r "provinces r" l] show ?thesis by auto
  qed
qed

lemma getDefaultLocation_Inr:
  "getDefaultLocation md = Inr d \<Longrightarrow>
   \<exists>r rs p ps. regions (metadata md) = r # rs \<and> provinces r = p # ps \<and>
     d = \<lparr>region = normalizeString (name r), province = normalizeString (Province.province p),
          city = normalizeString ((case cities p of [] \<Rightarrow> ''undefined'' | c # _ \<Rightarrow> c) @ ''|'' @
                                  Province.province p)\<rparr>"
  by (auto simp: getDefaultLocation_def Let_def split: list.splits)

section \<open>The example dataset, evaluated\<close>

lemma exampleMetadata_cities:
  "locationFilters (Some exampleMetadata) unsetFilter =
     [\<lparr>region = ''NCR'', province = ''Metro Manila'', city = ''Manila'',
       key = ''manila|metro manila'', displayName = ''Manila (Metro Manila)''\<rparr>,
      \<lparr>region = ''NCR'', province = ''Metro Manila'', city = ''Quezon City'',
       key = ''quezon city|metro manila'', displayName = ''Quezon City (Metro Manila)''\<rparr>]"
  by (simp add: exampleMetadata_def unsetFilter_def allCities_def flatMap_def string_evals)

lemma exampleMetadata_map:
  "cityToLocationMap (Some exampleMetadata) ''manila|metro manila'' = Some (''ncr'', ''metro manila'')"
  by (simp add: exampleMetadata_def string_evals)

lemma exampleMetadata_find:
  "findLocationInMetadata exampleMetadata ''QUEZON CITY'' =
     Some \<lparr>region = ''ncr'', province = ''metro manila'', city = ''quezon city|metro manila''\<rparr>"
  by (simp add: exampleMetadata_def findLocationInMetadata_def string_evals)

lemma exampleMetadata_default:
  "getDefaultLocation exampleMetadata =
     Inr \<lparr>region = ''ncr'', province = ''metro manila'', city = ''manila|metro manila''\<rparr>"
  by (simp add: exampleMetadata_def getDefaultLocation_def string_evals)

section \<open>C1: the composite city key\<close>

text \<open>
  The key is built in four places (the city list, the city-to-location map, the
  resolver's hierarchy match, the dataset default), each time as
  \<^verbatim>\<open>normalizeString(`${city}|${province}`)\<close>: the joined text is normalised, not the
  two parts. For a city that ends with white space the key keeps that white space in
  front of the separator, and differs from the concatenation of the two normalised parts.
\<close>

theorem city_key_counterexample:
  "locationFilters (Some trailingSpaceMetadata) unsetFilter =
     [\<lparr>region = ''NCR'', province = ''Metro Manila'', city = ''Manila '',
       key = ''manila |metro manila'', displayName = ''Manila  (Metro Manila)''\<rparr>] \<and>
   normalizeString ''Manila '' @ ''|'' @ normalizeString ''Metro Manila'' = ''manila|metro manila'' \<and>
   key (hd (locationFilters (Some trailingSpaceMetadata) unsetFilter)) \<noteq>
     normalizeString (city (hd (locationFilters (Some trailingSpaceMetadata) unsetFilter))) @ ''|'' @
     normalizeString (province (hd (locationFilters (Some trailingSpaceMetadata) unsetFilter)))"
  by (simp add: trailingSpaceMetadata_def unsetFilter_def allCities_def flatMap_def string_evals)

text \<open>
  Claim C1, as the code has it: every city entry produced by the hierarchy index carries
  the key \<open>normalizeString (city @ ''|'' @ province)\<close>, which is the lower-cased city
  without its leading white space, the separator, and the lower-cased province without its
  trailing white space. It equals the concatenation of the two independently normalised
  parts whenever the city does not end with white space and the province does not begin
  with white space.
\<close>

theorem city_key_normalizes_joined_text:
  "(\<forall>e \<in> set (locationFilters (Some md) fo).
      key e = normalizeString (city e @ ''|'' @ province e)) \<and>
   (\<forall>k v. cityToLocationMap (Some md) k = Some v \<longrightarrow>
      (\<exists>r \<in> set (regions (metadata md)). \<exists>p \<in> set (provinces r). \<exists>c \<in> set (cities p).
         k = normalizeString (c @ ''|'' @ Province.province p))) \<and>
   (\<forall>l. findLocationInMetadata md cityName = Some l \<longrightarrow>
      (\<exists>r \<in> set (regions (metadata md)). \<exists>p \<in> set (provinces r). \<exists>c \<in> set (cities p).
         city l = normalizeString (c @ ''|'' @ Province.province p))) \<and>
   (\<forall>d r rs p ps c cs. getDefaultLocation md = Inr d \<longrightarrow> regions (metadata md) = r # rs \<longrightarrow>
      provinces r = p # ps \<longrightarrow> cities p = c # cs \<longrightarrow>
      city d = normalizeString (c @ ''|'' @ Province.province p)) \<and>
   normalizeString (c0 @ ''|'' @ p0) = trimStart (toLowerCase c0) @ ''|'' @ trimEnd (toLowerCase p0) \<and>
   ((c0 = [] \<or> \<not> isWhiteSpace (last c0)) \<and> (p0 = [] \<or> \<not> isWhiteSpace (hd p0)) \<longrightarrow>
      normalizeString (c0 @ ''|'' @ p0) = normalizeString c0 @ ''|'' @ normalizeString p0)"
proof (intro conjI)
  show "\<forall>e \<in> set (locationFilters (Some md) fo). key e = normalizeString (city e @ ''|'' @ province e)"
    using locationFilters_key by blast
next
  show "\<forall>k v. cityToLocationMap (Some md) k = Some v \<longrightarrow>
      (\<exists>r \<in> set (regions (metadata md)). \<exists>p \<in> set (provinces r). \<exists>c \<in> set (cities p).
         k = normalizeString (c @ ''|'' @ Province.province p))"
  proof (intro allI impI)
    fix k v
    assume "cityToLocationMap (Some md) k = Some v"
    then obtain e where "e \<in> set (allCities md)" "k = key e"
      using cityToLocationMap_entry by blast
    then obtain r p c where "r \<in> set (regions (metadata md))" "p \<in> set (provinces r)"
      "c \<in> set (cities p)" "k = normalizeString (c @ ''|'' @ Province.province p)"
      by (auto simp: set_allCities)
    then show "\<exists>r \<in> set (regions (metadata md)). \<exists>p \<in> set (provinces r). \<exists>c \<in> set (cities p).
         k = normalizeString (c @ ''|'' @ Province.province p)"
      by blast
  qed
next
  show "\<forall>l. findLocationInMetadata md cityName = Some l \<longrightarrow>
      (\<exists>r \<in> set (regions (metadata md)). \<exists>p \<in> set (provinces r). \<exists>c \<in> set (cities p).
         city l = normalizeString (c @ ''|'' @ Province.province p))"
  proof (intro allI impI)
    fix l
    assume "findLocationInMetadata md cityName = Some l"
    then have "findInRegions (normalizeString cityName) (regions (metadata md)) = Some l"
      by (simp add: findLocationInMetadata_def)
    from findInRegions_city [OF this]
    show "\<exists>r \<in> set (regions (metadata md)). \<exists>p \<in> set (provinces r). \<exists>c \<in> set (cities p).
         city l = normalizeString (c @ ''|'' @ Province.province p)"
      by fastforce
  qed
next
  show "\<forall>d r rs p ps c cs. getDefaultLocation md = Inr d \<longrightarrow> regions (metadata md) = r # rs \<longrightarrow>
      provinces r = p # ps \<longrightarrow> cities p = c # cs \<longrightarrow>
      city d = normalizeString (c @ ''|'' @ Province.province p)"
    by (auto dest!: getDefaultLocation_Inr)
next
  show "normalizeString (c0 @ ''|'' @ p0) = trimStart (toLowerCase c0) @ ''|'' @ trimEnd (toLowerCase p0)"
    by (rule normalizeString_join)
next
  show "(c0 = [] \<or> \<not> isWhiteSpace (last c0)) \<and> (p0 = [] \<or> \<not> isWhiteSpace (hd p0)) \<longrightarrow>
      normalizeString (c0 @ ''|'' @ p0) = normalizeString c0 @ ''|'' @ normalizeString p0"
    by (simp add: normalizeString_join normalizeString_no_trailing normalizeString_no_leading
             del: append.simps)
qed

theorem city_key_normalizes_joined_text_witness:
  "key (hd (locationFilters (Some exampleMetadata) unsetFilter)) =
     normalizeString (''Manila'' @ ''|'' @ ''Metro Manila'') \<and>
   cityToLocationMap (Some exampleMetadata) ''manila|metro manila'' = Some (''ncr'', ''metro manila'') \<and>
   findLocationInMetadata exampleMetadata ''QUEZON CITY'' =
     Some \<lparr>region = ''ncr'', province = ''metro manila'', city = ''quezon city|metro manila''\<rparr> \<and>
   getDefaultLocation exampleMetadata =
     Inr \<lparr>region = ''ncr'', province = ''metro manila'', city = ''manila|metro manila''\<rparr> \<and>
   \<not> isWhiteSpace (last ''Manila'') \<and> \<not> isWhiteSpace (hd ''Metro Manila'') \<and>
   normalizeString (''Manila'' @ ''|'' @ ''Metro Manila'') =
     normalizeString ''Manila'' @ ''|'' @ normalizeString ''Metro Manila''"
proof -
  note inst = city_key_normalizes_joined_text
    [of exampleMetadata unsetFilter "''QUEZON CITY''" "''Manila''" "''Metro Manila''"]
  have ws: "\<not> isWhiteSpace (last ''Manila'')" "\<not> isWhiteSpace (hd ''Metro Manila'')"
    by (simp_all add: isWhiteSpace_def)
  have mem: "hd (locationFilters (Some exampleMetadata) unsetFilter)
               \<in> set (locationFilters (Some exampleMetadata) unsetFilter)"
    unfolding exampleMetadata_cities by simp
  from inst have "\<forall>e \<in> set (locationFilters (Some exampleMetadata) unsetFilter).
      key e = normalizeString (city e @ ''|'' @ province e)"
    by (rule conjunct1)
  with mem have "key (hd (locationFilters (Some exampleMetadata) unsetFilter)) =
     normalizeString (city (hd (locationFilters (Some exampleMetadata) unsetFilter)) @ ''|'' @
                      province (hd (locationFilters (Some exampleMetadata) unsetFilter)))"
    by blast
  then have k: "key (hd (locationFilters (Some exampleMetadata) unsetFilter)) =
     normalizeString (''Manila'' @ ''|'' @ ''Metro Manila'')"
    unfolding exampleMetadata_cities by simp
  from inst ws have eq: "normalizeString (''Manila'' @ ''|'' @ ''Metro Manila'') =
     normalizeString ''Manila'' @ ''|'' @ normalizeString ''Metro Manila''"
    by blast
  show ?thesis
    using k eq ws exampleMetadata_map exampleMetadata_find exampleMetadata_default by blast
qed

section \<open>C2: a province name under two regions\<close>

lemma map_of_const_value:
  "map_of (map (\<lambda>p. (K p, v)) ps) k = (if k \<in> K ` set ps then Some v else None)"
  by (induction ps) auto

lemma map_of_rev_const_value:
  "map_of (rev (map (\<lambda>p. (K p, v)) ps)) k = (if k \<in> K ` set ps then Some v else None)"
  using map_of_const_value [of K v "rev ps" k] by (simp add: rev_map)

lemma map_of_None_keys: "k \<notin> fst ` set xs \<Longrightarrow> map_of xs k = None"
  by (simp add: map_of_eq_None_iff)

lemma provinceToRegionMap_last:
  assumes split: "regions (metadata md) = rs1 @ r # rs2"
    and p: "p \<in> set (provinces r)"
    and later: "\<forall>r' \<in> set rs2. \<forall>p' \<in> set (provinces r').
                  normalizeString (Province.province p') \<noteq> normalizeString (Province.province p)"
  shows "provinceToRegionMap (Some md) (normalizeString (Province.province p)) =
           Some (normalizeString (name r))"
proof -
  let ?k = "normalizeString (Province.province p)"
  let ?L = "\<lambda>r. map (\<lambda>p. (normalizeString (Province.province p), normalizeString (name r)))
                      (provinces r)"
  have none: "map_of (rev (concat (map ?L rs2))) ?k = None"
    using later by (intro map_of_None_keys) fastforce
  have here: "map_of (rev (?L r)) ?k = Some (normalizeString (name r))"
    using p by (simp add: map_of_rev_const_value)
  show ?thesis
    unfolding provinceToRegionMap_map_of split
    by (simp add: map_of_append map_add_def none here)
qed

text \<open>
  The claim says that a province name that appears under two regions resolves to the
  first of them. \<open>provinceToRegionMap\<close> is filled in dataset order and
  \<^verbatim>\<open>map.set\<close> overwrites: in the dataset with Laguna under Region A and under
  Region B the lookup, and so \<open>handleProvinceChange\<close>, gives Region B.
\<close>

theorem province_lookup_counterexample:
  "regions (metadata duplicateProvinceMetadata) = [regionA, regionB, regionC] \<and>
   map (\<lambda>p. normalizeString (Province.province p)) (provinces regionA) = [''laguna''] \<and>
   normalizeString (name regionA) = ''region a'' \<and>
   provinceToRegionMap (Some duplicateProvinceMetadata) ''laguna'' = Some ''region b'' \<and>
   region (filterOptions (handleProvinceChange (Some duplicateProvinceMetadata) ''laguna''
                            (initialState None))) = ''region b''"
  by (simp add: duplicateProvinceMetadata_def regionA_def regionB_def regionC_def
        handleProvinceChange_def updateLocation_def initialState_def Let_def string_evals)

text \<open>
  Claim C2, as the code has it: the province-to-region lookup used when the user selects a
  province resolves a province name to the last region, in dataset order, that has a
  province with that normalised name.
\<close>

theorem province_lookup_last_region:
  assumes "regions (metadata md) = rs1 @ r # rs2"
    and "p \<in> set (provinces r)"
    and "\<forall>r' \<in> set rs2. \<forall>p' \<in> set (provinces r').
           normalizeString (Province.province p') \<noteq> normalizeString (Province.province p)"
  shows "provinceToRegionMap (Some md) (normalizeString (Province.province p)) =
           Some (normalizeString (name r)) \<and>
         region (filterOptions (handleProvinceChange (Some md) (normalizeString (Province.province p)) st)) =
           normalizeString (name r)"
  using provinceToRegionMap_last [OF assms]
  by (simp add: handleProvinceChange_def updateLocation_def Let_def del: provinceToRegionMap.simps)

theorem province_lookup_last_region_witness:
  "regions (metadata duplicateProvinceMetadata) = [regionA] @ regionB # [regionC] \<and>
   provinces regionB = [\<lparr>Province.province = ''Laguna'', cities = [''Binan'']\<rparr>] \<and>
   map (\<lambda>p. normalizeString (Province.province p)) (provinces regionC) = [''cavite''] \<and>
   provinceToRegionMap (Some duplicateProvinceMetadata) ''laguna'' = Some ''region b'' \<and>
   region (filterOptions (handleProvinceChange (Some duplicateProvinceMetadata) ''laguna''
                            (initialState None))) = ''region b''"
proof -
  let ?p = "\<lparr>Province.province = ''Laguna'', cities = [''Binan'']\<rparr>"
  have a: "regions (metadata duplicateProvinceMetadata) = [regionA] @ regionB # [regionC]"
    by (simp add: duplicateProvinceMetadata_def)
  have ps: "provinces regionB = [?p]"
    by (simp add: regionB_def)
  have b: "?p \<in> set (provinces regionB)"
    by (simp add: ps)
  have later: "map (\<lambda>p. normalizeString (Province.province p)) (provinces regionC) = [''cavite'']"
    by (simp add: regionC_def string_evals)
  have k: "normalizeString (Province.province ?p) = ''laguna''"
    by (simp add: string_evals)
  have c: "\<forall>r' \<in> set [regionC]. \<forall>p' \<in> set (provinces r').
           normalizeString (Province.province p') \<noteq> normalizeString (Province.province ?p)"
    unfolding k by (simp add: regionC_def string_evals)
  have n: "normalizeString (name regionB) = ''region b''"
    by (simp add: regionB_def string_evals)
  from province_lookup_last_region [OF a b c, of "initialState None"] a ps later
  show ?thesis
    unfolding k n by blast
qed

section \<open>C9: the city list and the city-to-location map\<close>

lemma allCities_key_in_map:
  assumes "e \<in> set (allCities md)"
  shows "\<exists>e' \<in> set (allCities md). key e' = key e \<and>
           cityToLocationMap (Some md) (key e) =
             Some (normalizeString (region e'), normalizeString (province e'))"
proof -
  let ?pairs = "map (\<lambda>e. (key e, (normalizeString (region e), normalizeString (province e))))
                    (allCities md)"
  from assms have "key e \<in> fst ` set (rev ?pairs)"
    by force
  then obtain v where v: "map_of (rev ?pairs) (key e) = Some v"
    by (cases "map_of (rev ?pairs) (key e)") (auto simp: map_of_eq_None_iff)
  then have "cityToLocationMap (Some md) (key e) = Some v"
    by (simp only: cityToLocationMap_map_of)
  with cityToLocationMap_entry [of md "key e" v] show ?thesis
    by auto
qed

text \<open>
  Claim C9: for every key that appears in the full city list (no region and no province
  selected), the city-to-location map has an entry for that key, and the entry is the
  normalised region and province of an entry of the list that carries the key.
\<close>

theorem city_map_round_trip:
  assumes "region fo = []" and "province fo = []"
    and "e \<in> set (locationFilters (Some md) fo)"
  shows "\<exists>e' \<in> set (locationFilters (Some md) fo). key e' = key e \<and>
           cityToLocationMap (Some md) (key e) =
             Some (normalizeString (region e'), normalizeString (province e'))"
  using assms allCities_key_in_map [of e md] by simp

theorem city_map_round_trip_witness:
  "region unsetFilter = [] \<and> province unsetFilter = [] \<and>
   locationFilters (Some exampleMetadata) unsetFilter ! 1 \<in>
     set (locationFilters (Some exampleMetadata) unsetFilter) \<and>
   key (locationFilters (Some exampleMetadata) unsetFilter ! 1) = ''quezon city|metro manila'' \<and>
   cityToLocationMap (Some exampleMetadata) ''quezon city|metro manila'' =
     Some (''ncr'', ''metro manila'')"
proof -
  let ?e = "locationFilters (Some exampleMetadata) unsetFilter ! 1"
  have a: "region unsetFilter = []" "province unsetFilter = []"
    by (simp_all add: unsetFilter_def)
  have b: "?e \<in> set (locationFilters (Some exampleMetadata) unsetFilter)"
    unfolding exampleMetadata_cities by simp
  have k: "key ?e = ''quezon city|metro manila''"
    unfolding exampleMetadata_cities by simp
  from city_map_round_trip [OF a b] obtain e' where
    e': "e' \<in> set (locationFilters (Some exampleMetadata) unsetFilter)" "key e' = key ?e"
      "cityToLocationMap (Some exampleMetadata) (key ?e) =
         Some (normalizeString (region e'), normalizeString (province e'))"
    by blast
  from e'(1,2) have "region e' = ''NCR'' \<and> province e' = ''Metro Manila''"
    unfolding exampleMetadata_cities k by auto
  then have "normalizeString (region e') = ''ncr''" "normalizeString (province e') = ''metro manila''"
    by (simp_all add: string_evals)
  with e'(3) a b k show ?thesis by simp
qed

section \<open>C7: the filter transitions\<close>

lemma updateLocation_filterOptions:
  "filterOptions (updateLocation l st) =
     (filterOptions st)\<lparr>region := region l, province := province l, city := city l\<rparr>"
  by (simp add: updateLocation_def)

lemma provinceFilters_key:
  assumes "pe \<in> set (provinceFilters (Some md) fo)"
  shows "\<exists>r \<in> set (regions (metadata md)). \<exists>p \<in> set (provinces r).
           pf_key pe = normalizeString (Province.province p)"
  using assms by (auto simp: flatMap_def Let_def split: if_splits) blast+

lemma provinceToRegionMap_owner:
  assumes "r \<in> set (regions (metadata md))" and "p \<in> set (provinces r)"
  shows "\<exists>r' \<in> set (regions (metadata md)). \<exists>p' \<in> set (provinces r').
           normalizeString (Province.province p') = normalizeString (Province.province p) \<and>
           provinceToRegionMap (Some md) (normalizeString (Province.province p)) =
             Some (normalizeString (name r'))"
proof -
  let ?k = "normalizeString (Province.province p)"
  let ?pairs = "concat (map (\<lambda>r. map (\<lambda>p. (normalizeString (Province.province p),
                                          normalizeString (name r)))
                                   (provinces r))
                            (regions (metadata md)))"
  from assms have "?k \<in> fst ` set (rev ?pairs)"
    by force
  then obtain v where v: "map_of (rev ?pairs) ?k = Some v"
    by (cases "map_of (rev ?pairs) ?k") (auto simp: map_of_eq_None_iff)
  then have "(?k, v) \<in> set (rev ?pairs)"
    by (rule map_of_SomeD)
  then obtain r' p' where "r' \<in> set (regions (metadata md))" "p' \<in> set (provinces r')"
    "normalizeString (Province.province p') = ?k" "v = normalizeString (name r')"
    by auto
  with v show ?thesis
    by (metis provinceToRegionMap_map_of)
qed

lemma handleProvinceChange_owner:
  assumes "pe \<in> set (provinceFilters (Some md) fo)"
  shows "\<exists>r \<in> set (regions (metadata md)). \<exists>p \<in> set (provinces r).
           normalizeString (Province.province p) = pf_key pe \<and>
           filterOptions (handleProvinceChange (Some md) (pf_key pe) st) =
             (filterOptions st)\<lparr>region := normalizeString (name r), province := pf_key pe, city := []\<rparr>"
proof -
  from provinceFilters_key [OF assms] obtain r p where
    "r \<in> set (regions (metadata md))" "p \<in> set (provinces r)"
    and k: "pf_key pe = normalizeString (Province.province p)"
    by blast
  from provinceToRegionMap_owner [OF this(1,2)] obtain r' p' where
    r': "r' \<in> set (regions (metadata md))" "p' \<in> set (provinces r')"
    "normalizeString (Province.province p') = pf_key pe"
    "provinceToRegionMap (Some md) (pf_key pe) = Some (normalizeString (name r'))"
    unfolding k by blast
  have "filterOptions (handleProvinceChange (Some md) (pf_key pe) st) =
      (filterOptions st)\<lparr>region := normalizeString (name r'), province := pf_key pe, city := []\<rparr>"
    using r'(4)
    by (simp add: handleProvinceChange_def updateLocation_filterOptions Let_def
             del: provinceToRegionMap.simps)
  with r' show ?thesis by blast
qed

lemma handleCityChange_owner:
  assumes "e \<in> set (locationFilters (Some md) fo)"
  shows "\<exists>r \<in> set (regions (metadata md)). \<exists>p \<in> set (provinces r). \<exists>c \<in> set (cities p).
           key e = normalizeString (c @ ''|'' @ Province.province p) \<and>
           filterOptions (handleCityChange (Some md) (key e) st) =
             (filterOptions st)\<lparr>region := normalizeString (name r),
                                 province := normalizeString (Province.province p), city := key e\<rparr>"
proof -
  from assms locationFilters_subset have "e \<in> set (allCities md)"
    by blast
  from allCities_key_in_map [OF this] obtain e' where
    e': "e' \<in> set (allCities md)" "key e' = key e"
    "cityToLocationMap (Some md) (key e) =
       Some (normalizeString (region e'), normalizeString (province e'))"
    by blast
  from e'(1) obtain r p c where rpc: "r \<in> set (regions (metadata md))" "p \<in> set (provinces r)"
    "c \<in> set (cities p)" "key e' = normalizeString (c @ ''|'' @ Province.province p)"
    "region e' = name r" "province e' = Province.province p"
    by (auto simp: set_allCities)
  have "filterOptions (handleCityChange (Some md) (key e) st) =
      (filterOptions st)\<lparr>region := normalizeString (name r),
                          province := normalizeString (Province.province p), city := key e\<rparr>"
    using e'(3) rpc(5,6)
    by (simp add: handleCityChange_def updateLocation_filterOptions del: cityToLocationMap.simps)
  with rpc e'(2) show ?thesis by metis
qed

lemma handleProvinceChange_unique_owner:
  assumes r: "r \<in> set (regions (metadata md))" and p: "p \<in> set (provinces r)"
    and unique: "\<forall>r' \<in> set (regions (metadata md)). \<forall>p' \<in> set (provinces r').
        normalizeString (Province.province p') = normalizeString (Province.province p) \<longrightarrow>
        normalizeString (name r') = normalizeString (name r)"
  shows "filterOptions (handleProvinceChange (Some md) (normalizeString (Province.province p)) st) =
           (filterOptions st)\<lparr>region := normalizeString (name r),
                               province := normalizeString (Province.province p), city := []\<rparr>"
proof -
  from provinceToRegionMap_owner [OF r p] obtain r' p' where
    "r' \<in> set (regions (metadata md))" "p' \<in> set (provinces r')"
    "normalizeString (Province.province p') = normalizeString (Province.province p)"
    and m: "provinceToRegionMap (Some md) (normalizeString (Province.province p)) =
             Some (normalizeString (name r'))"
    by blast
  with unique have "normalizeString (name r') = normalizeString (name r)"
    by blast
  with m show ?thesis
    by (simp add: handleProvinceChange_def updateLocation_filterOptions Let_def
             del: provinceToRegionMap.simps)
qed

lemma handleCityChange_unique_owner:
  assumes r: "r \<in> set (regions (metadata md))" and p: "p \<in> set (provinces r)"
    and c: "c \<in> set (cities p)"
    and unique: "\<forall>r' \<in> set (regions (metadata md)). \<forall>p' \<in> set (provinces r'). \<forall>c' \<in> set (cities p').
        normalizeString (c' @ ''|'' @ Province.province p') =
        normalizeString (c @ ''|'' @ Province.province p) \<longrightarrow>
        normalizeString (name r') = normalizeString (name r) \<and>
        normalizeString (Province.province p') = normalizeString (Province.province p)"
  shows "filterOptions (handleCityChange (Some md) (normalizeString (c @ ''|'' @ Province.province p)) st) =
           (filterOptions st)\<lparr>region := normalizeString (name r),
                               province := normalizeString (Province.province p),
                               city := normalizeString (c @ ''|'' @ Province.province p)\<rparr>"
proof -
  let ?k = "normalizeString (c @ ''|'' @ Province.province p)"
  let ?e = "\<lparr>region = name r, province = Province.province p, city = c, key = ?k,
             displayName = c @ '' ('' @ Province.province p @ '')''\<rparr>"
  from r p c have "?e \<in> set (allCities md)"
    unfolding set_allCities by blast
  from allCities_key_in_map [OF this] obtain e' where
    e': "e' \<in> set (allCities md)" "key e' = ?k"
    and m: "cityToLocationMap (Some md) ?k =
             Some (normalizeString (region e'), normalizeString (province e'))"
    by auto
  from e' obtain r' p' c' where "r' \<in> set (regions (metadata md))" "p' \<in> set (provinces r')"
    "c' \<in> set (cities p')" "normalizeString (c' @ ''|'' @ Province.province p') = ?k"
    "region e' = name r'" "province e' = Province.province p'"
    by (auto simp: set_allCities)
  with unique have "normalizeString (region e') = normalizeString (name r)"
    "normalizeString (province e') = normalizeString (Province.province p)"
    by auto
  with m show ?thesis
    by (simp add: handleCityChange_def updateLocation_filterOptions del: cityToLocationMap.simps)
qed

lemma cityToLocationMap_last:
  assumes split: "allCities md = es1 @ e # es2"
    and later: "\<forall>e' \<in> set es2. key e' \<noteq> key e"
  shows "cityToLocationMap (Some md) (key e) =
           Some (normalizeString (region e), normalizeString (province e))"
proof -
  let ?pair = "\<lambda>e. (key e, (normalizeString (region e), normalizeString (province e)))"
  have none: "map_of (rev (map ?pair es2)) (key e) = None"
    using later by (intro map_of_None_keys) force
  show ?thesis
    unfolding cityToLocationMap_map_of split
    by (simp add: map_of_append map_add_def none)
qed

lemma handleProvinceChange_last_owner:
  assumes "regions (metadata md) = rs1 @ rl # rs2"
    and "pl \<in> set (provinces rl)"
    and "\<forall>r' \<in> set rs2. \<forall>p' \<in> set (provinces r').
           normalizeString (Province.province p') \<noteq> normalizeString (Province.province pl)"
  shows "filterOptions (handleProvinceChange (Some md) (normalizeString (Province.province pl)) st) =
           (filterOptions st)\<lparr>region := normalizeString (name rl),
                               province := normalizeString (Province.province pl), city := []\<rparr>"
  using provinceToRegionMap_last [OF assms]
  by (simp add: handleProvinceChange_def updateLocation_filterOptions Let_def
           del: provinceToRegionMap.simps)

lemma handleCityChange_last_entry:
  assumes "allCities md = es1 @ e # es2" and "\<forall>e' \<in> set es2. key e' \<noteq> key e"
  shows "filterOptions (handleCityChange (Some md) (key e) st) =
           (filterOptions st)\<lparr>region := normalizeString (region e),
                               province := normalizeString (province e), city := key e\<rparr>"
  using cityToLocationMap_last [OF assms]
  by (simp add: handleCityChange_def updateLocation_filterOptions del: cityToLocationMap.simps)

text \<open>
  The claim says that selecting a province sets the region to that province's parent
  region, and selecting a city sets region and province to the city's owners. The handlers
  receive the key only and look it up in maps in which a later entry has overwritten an
  earlier one with the same key. With Region A selected, the province list offers the
  Laguna of Region A; selecting it sets the region to Region B, which has a Laguna too and
  comes later. In the dataset where Calamba of Laguna appears under Region A and under
  Region D, selecting the first Calamba of the city list sets the region to Region D.
\<close>

theorem selection_parent_counterexample:
  "provinceFilters (Some duplicateProvinceMetadata) (unsetFilter\<lparr>region := ''region a''\<rparr>) =
     [\<lparr>pf_name = ''Laguna'', pf_regionName = ''Region A'', pf_key = ''laguna''\<rparr>] \<and>
   normalizeString ''Region A'' = ''region a'' \<and>
   filterOptions (handleProvinceChange (Some duplicateProvinceMetadata) ''laguna''
                    (handleRegionChange ''region a'' (initialState None))) =
     \<lparr>region = ''region b'', province = ''laguna'', city = [], category = ''All Hotlines''\<rparr> \<and>
   hd (locationFilters (Some duplicateCityMetadata) unsetFilter) =
     \<lparr>region = ''Region A'', province = ''Laguna'', city = ''Calamba'',
      key = ''calamba|laguna'', displayName = ''Calamba (Laguna)''\<rparr> \<and>
   filterOptions (handleCityChange (Some duplicateCityMetadata) ''calamba|laguna''
                    (initialState None)) =
     \<lparr>region = ''region d'', province = ''laguna'', city = ''calamba|laguna'',
      category = ''All Hotlines''\<rparr>"
  by (simp add: duplicateProvinceMetadata_def duplicateCityMetadata_def regionA_def regionB_def
        regionC_def regionD_def handleProvinceChange_def handleCityChange_def
        handleRegionChange_def updateLocation_def initialState_def unsetFilter_def
        allCities_def flatMap_def Let_def string_evals)

text \<open>
  Claim C7, as the code has it: each transition leaves the filter in the cascade.
  Selecting a region sets the region and clears province and city. Selecting a province
  (the caller passes its key only) clears the city and sets the region to the normalised
  name of the last region, in dataset order, that owns a province with that key; this is
  the parent region of the province when all owners of the key have the same normalised
  region name. Selecting a city sets region and province to those of the last entry of
  the full city list that carries the key, the owning ones when the key has one owner.
  Clearing the region clears all three levels, clearing the province clears province and
  city, clearing the city clears the city only. The category is never touched.
\<close>

theorem filter_transitions_cascade:
  "filterOptions (handleRegionChange regionKey st) =
     (filterOptions st)\<lparr>region := regionKey, province := [], city := []\<rparr> \<and>
   (\<forall>pe \<in> set (provinceFilters (Some md) fo).
      \<exists>r \<in> set (regions (metadata md)). \<exists>p \<in> set (provinces r).
        normalizeString (Province.province p) = pf_key pe \<and>
        filterOptions (handleProvinceChange (Some md) (pf_key pe) st) =
          (filterOptions st)\<lparr>region := normalizeString (name r), province := pf_key pe, city := []\<rparr>) \<and>
   (\<forall>e \<in> set (locationFilters (Some md) fo).
      \<exists>r \<in> set (regions (metadata md)). \<exists>p \<in> set (provinces r). \<exists>c \<in> set (cities p).
        key e = normalizeString (c @ ''|'' @ Province.province p) \<and>
        filterOptions (handleCityChange (Some md) (key e) st) =
          (filterOptions st)\<lparr>region := normalizeString (name r),
                              province := normalizeString (Province.province p), city := key e\<rparr>) \<and>
   filterOptions (handleClearRegion st) = (filterOptions st)\<lparr>region := [], province := [], city := []\<rparr> \<and>
   filterOptions (handleClearProvince st) = (filterOptions st)\<lparr>province := [], city := []\<rparr> \<and>
   filterOptions (handleClearCity st) = (filterOptions st)\<lparr>city := []\<rparr> \<and>
   (r \<in> set (regions (metadata md)) \<and> p \<in> set (provinces r) \<and>
    (\<forall>r' \<in> set (regions (metadata md)). \<forall>p' \<in> set (provinces r').
        normalizeString (Province.province p') = normalizeString (Province.province p) \<longrightarrow>
        normalizeString (name r') = normalizeString (name r)) \<longrightarrow>
    filterOptions (handleProvinceChange (Some md) (normalizeString (Province.province p)) st) =
      (filterOptions st)\<lparr>region := normalizeString (name r),
                          province := normalizeString (Province.province p), city := []\<rparr>) \<and>
   (r \<in> set (regions (metadata md)) \<and> p \<in> set (provinces r) \<and> c \<in> set (cities p) \<and>
    (\<forall>r' \<in> set (regions (metadata md)). \<forall>p' \<in> set (provinces r'). \<forall>c' \<in> set (cities p').
        normalizeString (c' @ ''|'' @ Province.province p') =
        normalizeString (c @ ''|'' @ Province.province p) \<longrightarrow>
        normalizeString (name r') = normalizeString (name r) \<and>
        normalizeString (Province.province p') = normalizeString (Province.province p)) \<longrightarrow>
    filterOptions (handleCityChange (Some md) (normalizeString (c @ ''|'' @ Province.province p)) st) =
      (filterOptions st)\<lparr>region := normalizeString (name r),
                          province := normalizeString (Province.province p),
                          city := normalizeString (c @ ''|'' @ Province.province p)\<rparr>) \<and>
   (regions (metadata md) = rs1 @ rl # rs2 \<and> pl \<in> set (provinces rl) \<and>
    (\<forall>r' \<in> set rs2. \<forall>p' \<in> set (provinces r').
        normalizeString (Province.province p') \<noteq> normalizeString (Province.province pl)) \<longrightarrow>
    filterOptions (handleProvinceChange (Some md) (normalizeString (Province.province pl)) st) =
      (filterOptions st)\<lparr>region := normalizeString (name rl),
                          province := normalizeString (Province.province pl), city := []\<rparr>) \<and>
   (allCities md = es1 @ e # es2 \<and> (\<forall>e' \<in> set es2. key e' \<noteq> key e) \<longrightarrow>
    filterOptions (handleCityChange (Some md) (key e) st) =
      (filterOptions st)\<lparr>region := normalizeString (region e),
                          province := normalizeString (province e), city := key e\<rparr>)"
proof (intro conjI ballI)
  show "filterOptions (handleRegionChange regionKey st) =
     (filterOptions st)\<lparr>region := regionKey, province := [], city := []\<rparr>"
    by (simp add: handleRegionChange_def updateLocation_filterOptions)
next
  fix pe assume "pe \<in> set (provinceFilters (Some md) fo)"
  then show "\<exists>r \<in> set (regions (metadata md)). \<exists>p \<in> set (provinces r).
        normalizeString (Province.province p) = pf_key pe \<and>
        filterOptions (handleProvinceChange (Some md) (pf_key pe) st) =
          (filterOptions st)\<lparr>region := normalizeString (name r), province := pf_key pe, city := []\<rparr>"
    by (rule handleProvinceChange_owner)
next
  fix e assume "e \<in> set (locationFilters (Some md) fo)"
  then show "\<exists>r \<in> set (regions (metadata md)). \<exists>p \<in> set (provinces r). \<exists>c \<in> set (cities p).
        key e = normalizeString (c @ ''|'' @ Province.province p) \<and>
        filterOptions (handleCityChange (Some md) (key e) st) =
          (filterOptions st)\<lparr>region := normalizeString (name r),
                              province := normalizeString (Province.province p), city := key e\<rparr>"
    by (rule handleCityChange_owner)
next
  show "filterOptions (handleClearRegion st) = (filterOptions st)\<lparr>region := [], province := [], city := []\<rparr>"
    by (simp add: handleClearRegion_def updateLocation_filterOptions)
next
  show "filterOptions (handleClearProvince st) = (filterOptions st)\<lparr>province := [], city := []\<rparr>"
    by (simp add: handleClearProvince_def updateLocation_filterOptions)
next
  show "filterOptions (handleClearCity st) = (filterOptions st)\<lparr>city := []\<rparr>"
    by (simp add: handleClearCity_def updateLocation_filterOptions)
next
  show "r \<in> set (regions (metadata md)) \<and> p \<in> set (provinces r) \<and>
    (\<forall>r' \<in> set (regions (metadata md)). \<forall>p' \<in> set (provinces r').
        normalizeString (Province.province p') = normalizeString (Province.province p) \<longrightarrow>
        normalizeString (name r') = normalizeString (name r)) \<longrightarrow>
    filterOptions (handleProvinceChange (Some md) (normalizeString (Province.province p)) st) =
      (filterOptions st)\<lparr>region := normalizeString (name r),
                          province := normalizeString (Province.province p), city := []\<rparr>"
    using handleProvinceChange_unique_owner [of r md p st] by blast
next
  show "r \<in> set (regions (metadata md)) \<and> p \<in> set (provinces r) \<and> c \<in> set (cities p) \<and>
    (\<forall>r' \<in> set (regions (metadata md)). \<forall>p' \<in> set (provinces r'). \<forall>c' \<in> set (cities p').
        normalizeString (c' @ ''|'' @ Province.province p') =
        normalizeString (c @ ''|'' @ Province.province p) \<longrightarrow>
        normalizeString (name r') = normalizeString (name r) \<and>
        normalizeString (Province.province p') = normalizeString (Province.province p)) \<longrightarrow>
    filterOptions (handleCityChange (Some md) (normalizeString (c @ ''|'' @ Province.province p)) st) =
      (filterOptions st)\<lparr>region := normalizeString (name r),
                          province := normalizeString (Province.province p),
                          city := normalizeString (c @ ''|'' @ Province.province p)\<rparr>"
    using handleCityChange_unique_owner [of r md p c st] by blast
next
  show "regions (metadata md) = rs1 @ rl # rs2 \<and> pl \<in> set (provinces rl) \<and>
    (\<forall>r' \<in> set rs2. \<forall>p' \<in> set (provinces r').
        normalizeString (Province.province p') \<noteq> normalizeString (Province.province pl)) \<longrightarrow>
    filterOptions (handleProvinceChange (Some md) (normalizeString (Province.province pl)) st) =
      (filterOptions st)\<lparr>region := normalizeString (name rl),
                          province := normalizeString (Province.province pl), city := []\<rparr>"
    using handleProvinceChange_last_owner [of md rs1 rl rs2 pl st] by blast
next
  show "allCities md = es1 @ e # es2 \<and> (\<forall>e' \<in> set es2. key e' \<noteq> key e) \<longrightarrow>
    filterOptions (handleCityChange (Some md) (key e) st) =
      (filterOptions st)\<lparr>region := normalizeString (region e),
                          province := normalizeString (province e), city := key e\<rparr>"
    using handleCityChange_last_entry [of md es1 e es2 st] by blast
qed

lemma exampleMetadata_provinces:
  "provinceFilters (Some exampleMetadata) unsetFilter =
     [\<lparr>pf_name = ''Metro Manila'', pf_regionName = ''NCR'', pf_key = ''metro manila''\<rparr>]"
  by (simp add: exampleMetadata_def unsetFilter_def flatMap_def string_evals)

lemma exampleMetadata_regions:
  "r \<in> set (regions (metadata exampleMetadata)) \<Longrightarrow> normalizeString (name r) = ''ncr''"
  "r \<in> set (regions (metadata exampleMetadata)) \<Longrightarrow> p \<in> set (provinces r) \<Longrightarrow>
     normalizeString (Province.province p) = ''metro manila''"
  by (auto simp: exampleMetadata_def string_evals)

theorem filter_transitions_cascade_witness:
  "\<lparr>pf_name = ''Metro Manila'', pf_regionName = ''NCR'', pf_key = ''metro manila''\<rparr>
     \<in> set (provinceFilters (Some exampleMetadata) unsetFilter) \<and>
   filterOptions (handleProvinceChange (Some exampleMetadata) ''metro manila'' (initialState None)) =
     \<lparr>region = ''ncr'', province = ''metro manila'', city = [], category = ''All Hotlines''\<rparr> \<and>
   \<lparr>region = ''NCR'', province = ''Metro Manila'', city = ''Quezon City'',
    key = ''quezon city|metro manila'', displayName = ''Quezon City (Metro Manila)''\<rparr>
     \<in> set (locationFilters (Some exampleMetadata) unsetFilter) \<and>
   filterOptions (handleCityChange (Some exampleMetadata) ''quezon city|metro manila''
                    (initialState None)) =
     \<lparr>region = ''ncr'', province = ''metro manila'', city = ''quezon city|metro manila'',
      category = ''All Hotlines''\<rparr> \<and>
   regions (metadata duplicateProvinceMetadata) = [regionA, regionB, regionC] \<and>
   map (\<lambda>r. map (\<lambda>p. normalizeString (Province.province p)) (provinces r))
       [regionA, regionB, regionC] = [[''laguna''], [''laguna''], [''cavite'']] \<and>
   filterOptions (handleProvinceChange (Some duplicateProvinceMetadata) ''cavite'' (initialState None)) =
     \<lparr>region = ''region c'', province = ''cavite'', city = [], category = ''All Hotlines''\<rparr> \<and>
   filterOptions (handleCityChange (Some duplicateProvinceMetadata) ''bacoor|cavite''
                    (initialState None)) =
     \<lparr>region = ''region c'', province = ''cavite'', city = ''bacoor|cavite'',
      category = ''All Hotlines''\<rparr> \<and>
   regions (metadata duplicateProvinceMetadata) = [regionA] @ regionB # [regionC] \<and>
   filterOptions (handleProvinceChange (Some duplicateProvinceMetadata) ''laguna'' (initialState None)) =
     \<lparr>region = ''region b'', province = ''laguna'', city = [], category = ''All Hotlines''\<rparr> \<and>
   map key (allCities duplicateCityMetadata) =
     [''calamba|laguna''] @ ''calamba|laguna'' # [''bacoor|cavite''] \<and>
   filterOptions (handleCityChange (Some duplicateCityMetadata) ''calamba|laguna''
                    (initialState None)) =
     \<lparr>region = ''region d'', province = ''laguna'', city = ''calamba|laguna'',
      category = ''All Hotlines''\<rparr>"
proof -
  let ?pe = "\<lparr>pf_name = ''Metro Manila'', pf_regionName = ''NCR'', pf_key = ''metro manila''\<rparr>"
  let ?e = "\<lparr>region = ''NCR'', province = ''Metro Manila'', city = ''Quezon City'',
             key = ''quezon city|metro manila'', displayName = ''Quezon City (Metro Manila)''\<rparr>"
  note inst = filter_transitions_cascade
    [of "[]" "initialState None" exampleMetadata unsetFilter]
  have pe: "?pe \<in> set (provinceFilters (Some exampleMetadata) unsetFilter)"
    unfolding exampleMetadata_provinces by simp
  have e: "?e \<in> set (locationFilters (Some exampleMetadata) unsetFilter)"
    unfolding exampleMetadata_cities by simp
  have f0: "filterOptions (initialState None) =
      \<lparr>region = [], province = [], city = [], category = ''All Hotlines''\<rparr>"
    by (simp add: initialState_def)
  from inst pe obtain r p where
    "r \<in> set (regions (metadata exampleMetadata))" "p \<in> set (provinces r)"
    "filterOptions (handleProvinceChange (Some exampleMetadata) (pf_key ?pe) (initialState None)) =
       (filterOptions (initialState None))
         \<lparr>region := normalizeString (name r), province := pf_key ?pe, city := []\<rparr>"
    by blast
  then have a: "filterOptions (handleProvinceChange (Some exampleMetadata) ''metro manila''
                                 (initialState None)) =
     \<lparr>region = ''ncr'', province = ''metro manila'', city = [], category = ''All Hotlines''\<rparr>"
    by (simp add: exampleMetadata_regions f0)
  from inst e obtain r p where
    "r \<in> set (regions (metadata exampleMetadata))" "p \<in> set (provinces r)"
    "filterOptions (handleCityChange (Some exampleMetadata) (key ?e) (initialState None)) =
       (filterOptions (initialState None))
         \<lparr>region := normalizeString (name r),
          province := normalizeString (Province.province p), city := key ?e\<rparr>"
    by blast
  then have b: "filterOptions (handleCityChange (Some exampleMetadata) ''quezon city|metro manila''
                    (initialState None)) =
     \<lparr>region = ''ncr'', province = ''metro manila'', city = ''quezon city|metro manila'',
      category = ''All Hotlines''\<rparr>"
    by (simp add: exampleMetadata_regions f0)
  let ?cavite = "\<lparr>Province.province = ''Cavite'', cities = [''Bacoor'']\<rparr>"
  have rs: "regions (metadata duplicateProvinceMetadata) = [regionA, regionB, regionC]"
    by (simp add: duplicateProvinceMetadata_def)
  have keys: "map (\<lambda>r. map (\<lambda>p. normalizeString (Province.province p)) (provinces r))
       [regionA, regionB, regionC] = [[''laguna''], [''laguna''], [''cavite'']]"
    by (simp add: regionA_def regionB_def regionC_def string_evals)
  have mem: "regionC \<in> set (regions (metadata duplicateProvinceMetadata))"
    "?cavite \<in> set (provinces regionC)" "''Bacoor'' \<in> set (cities ?cavite)"
    by (simp_all add: rs regionC_def)
  have n: "normalizeString (name regionC) = ''region c''"
    "normalizeString (Province.province ?cavite) = ''cavite''"
    "normalizeString (''Bacoor'' @ ''|'' @ Province.province ?cavite) = ''bacoor|cavite''"
    by (simp_all add: regionC_def string_evals)
  have up: "\<forall>r' \<in> set (regions (metadata duplicateProvinceMetadata)). \<forall>p' \<in> set (provinces r').
        normalizeString (Province.province p') = normalizeString (Province.province ?cavite) \<longrightarrow>
        normalizeString (name r') = normalizeString (name regionC)"
    by (simp add: rs regionA_def regionB_def regionC_def string_evals)
  have uc: "\<forall>r' \<in> set (regions (metadata duplicateProvinceMetadata)). \<forall>p' \<in> set (provinces r').
      \<forall>c' \<in> set (cities p').
        normalizeString (c' @ ''|'' @ Province.province p') =
        normalizeString (''Bacoor'' @ ''|'' @ Province.province ?cavite) \<longrightarrow>
        normalizeString (name r') = normalizeString (name regionC) \<and>
        normalizeString (Province.province p') = normalizeString (Province.province ?cavite)"
    by (simp add: rs regionA_def regionB_def regionC_def string_evals)
  note inst2 = filter_transitions_cascade
    [of _ "initialState None" duplicateProvinceMetadata _ regionC ?cavite "''Bacoor''"]
  from inst2 mem up
  have "filterOptions (handleProvinceChange (Some duplicateProvinceMetadata)
                         (normalizeString (Province.province ?cavite)) (initialState None)) =
      (filterOptions (initialState None))
        \<lparr>region := normalizeString (name regionC),
         province := normalizeString (Province.province ?cavite), city := []\<rparr>"
    by blast
  then have c: "filterOptions (handleProvinceChange (Some duplicateProvinceMetadata) ''cavite''
                                 (initialState None)) =
     \<lparr>region = ''region c'', province = ''cavite'', city = [], category = ''All Hotlines''\<rparr>"
    unfolding n by (simp add: f0)
  from inst2 mem uc
  have "filterOptions (handleCityChange (Some duplicateProvinceMetadata)
                         (normalizeString (''Bacoor'' @ ''|'' @ Province.province ?cavite))
                         (initialState None)) =
      (filterOptions (initialState None))
        \<lparr>region := normalizeString (name regionC),
         province := normalizeString (Province.province ?cavite),
         city := normalizeString (''Bacoor'' @ ''|'' @ Province.province ?cavite)\<rparr>"
    by blast
  then have d: "filterOptions (handleCityChange (Some duplicateProvinceMetadata) ''bacoor|cavite''
                    (initialState None)) =
     \<lparr>region = ''region c'', province = ''cavite'', city = ''bacoor|cavite'',
      category = ''All Hotlines''\<rparr>"
    unfolding n by (simp add: f0)
  let ?laguna = "\<lparr>Province.province = ''Laguna'', cities = [''Binan'']\<rparr>"
  have rs': "regions (metadata duplicateProvinceMetadata) = [regionA] @ regionB # [regionC]"
    by (simp add: duplicateProvinceMetadata_def)
  have lag: "?laguna \<in> set (provinces regionB)"
    by (simp add: regionB_def)
  have nl: "normalizeString (name regionB) = ''region b''"
    "normalizeString (Province.province ?laguna) = ''laguna''"
    by (simp_all add: regionB_def string_evals)
  have later: "\<forall>r' \<in> set [regionC]. \<forall>p' \<in> set (provinces r').
        normalizeString (Province.province p') \<noteq> normalizeString (Province.province ?laguna)"
    by (simp add: regionC_def string_evals)
  note inst3 = filter_transitions_cascade
    [of _ "initialState None" duplicateProvinceMetadata _ _ _ _ "[regionA]" regionB "[regionC]"
        ?laguna]
  from inst3 rs' lag later
  have "filterOptions (handleProvinceChange (Some duplicateProvinceMetadata)
                         (normalizeString (Province.province ?laguna)) (initialState None)) =
      (filterOptions (initialState None))
        \<lparr>region := normalizeString (name regionB),
         province := normalizeString (Province.province ?laguna), city := []\<rparr>"
    by blast
  then have l: "filterOptions (handleProvinceChange (Some duplicateProvinceMetadata) ''laguna''
                                 (initialState None)) =
     \<lparr>region = ''region b'', province = ''laguna'', city = [], category = ''All Hotlines''\<rparr>"
    unfolding nl by (simp add: f0)
  let ?eA = "\<lparr>region = ''Region A'', province = ''Laguna'', city = ''Calamba'',
              key = ''calamba|laguna'', displayName = ''Calamba (Laguna)''\<rparr>"
  let ?eD = "\<lparr>region = ''Region D'', province = ''Laguna'', city = ''Calamba'',
              key = ''calamba|laguna'', displayName = ''Calamba (Laguna)''\<rparr>"
  let ?eC = "\<lparr>region = ''Region C'', province = ''Cavite'', city = ''Bacoor'',
              key = ''bacoor|cavite'', displayName = ''Bacoor (Cavite)''\<rparr>"
  have es: "allCities duplicateCityMetadata = [?eA] @ ?eD # [?eC]"
    by (simp add: duplicateCityMetadata_def regionA_def regionD_def regionC_def allCities_def
          flatMap_def string_evals)
  have ks: "map key (allCities duplicateCityMetadata) =
     [''calamba|laguna''] @ ''calamba|laguna'' # [''bacoor|cavite'']"
    unfolding es by simp
  have el: "\<forall>e' \<in> set [?eC]. key e' \<noteq> key ?eD"
    by simp
  have nd: "normalizeString (region ?eD) = ''region d''" "normalizeString (province ?eD) = ''laguna''"
    by (simp_all add: string_evals)
  note inst4 = filter_transitions_cascade
    [of _ "initialState None" duplicateCityMetadata _ _ _ _ _ _ _ _ "[?eA]" ?eD "[?eC]"]
  from inst4 es el
  have "filterOptions (handleCityChange (Some duplicateCityMetadata) (key ?eD) (initialState None)) =
      (filterOptions (initialState None))
        \<lparr>region := normalizeString (region ?eD),
         province := normalizeString (province ?eD), city := key ?eD\<rparr>"
    by blast
  then have cd: "filterOptions (handleCityChange (Some duplicateCityMetadata) ''calamba|laguna''
                    (initialState None)) =
     \<lparr>region = ''region d'', province = ''laguna'', city = ''calamba|laguna'',
      category = ''All Hotlines''\<rparr>"
    unfolding nd by (simp add: f0)
  from pe a e b rs keys c d rs' l ks cd show ?thesis by blast
qed

section \<open>C3: the city filter\<close>

lemma split_on_no_sep: "sep \<notin> set p \<Longrightarrow> split_on sep p = (p, [])"
  by (induction p) auto

lemma split_on_first:
  "sep \<notin> set c \<Longrightarrow> split_on sep (c @ sep # r) = (c, fst (split_on sep r) # snd (split_on sep r))"
  by (induction c) (auto split: prod.splits)

lemma split_on_piece:
  "sep \<notin> set p \<Longrightarrow> rest = [] \<or> hd rest = sep \<Longrightarrow> fst (split_on sep (p @ rest)) = p"
proof (induction p)
  case Nil
  then show ?case by (cases rest) (auto split: prod.splits)
next
  case (Cons x p)
  then show ?case by (auto split: prod.splits)
qed

lemma extractLocationFromFilter_composite:
  assumes "CHR ''|'' \<notin> set c" and "CHR ''|'' \<notin> set p" and "rest = [] \<or> hd rest = CHR ''|''"
  shows "extractLocationFromFilter (c @ ''|'' @ p @ rest) = (c, Some p)"
  using assms split_on_first [of "CHR ''|''" c "p @ rest"] split_on_piece [of "CHR ''|''" p rest]
  by (simp add: extractLocationFromFilter_def)

lemma extractLocationFromFilter_legacy:
  "CHR ''|'' \<notin> set v \<Longrightarrow> extractLocationFromFilter v = (v, None)"
  by (simp add: extractLocationFromFilter_def)

text \<open>
  The claim says that a filter value with a separator always asks for the province as
  well. The code takes the composite branch under \<^verbatim>\<open>if (locationFromFilter.province)\<close>,
  which does not hold for an empty province part: the value \<^verbatim>\<open>manila|\<close> keeps the
  Manila hotline of Metro Cebu, whose province does not match the empty province part.
\<close>

theorem city_filter_counterexample:
  "CHR ''|'' \<in> set ''manila|'' \<and>
   extractLocationFromFilter ''manila|'' = (''manila'', Some []) \<and>
   normalizeString (Hotline.province manilaMetroCebu) \<noteq> normalizeString [] \<and>
   selectedHotlines [manilaMetroManila, manilaMetroCebu] (unsetFilter\<lparr>city := ''manila|''\<rparr>) =
     Inr [manilaMetroManila, manilaMetroCebu]"
  by (simp add: extractLocationFromFilter_def selectedHotlines_def hotlineInLocation_def
        manilaMetroManila_def manilaMetroCebu_def unsetFilter_def string_evals)

text \<open>
  Claim C3, as the code has it: for every hotline and every set city filter (next to the
  region and province conditions), if the value contains the separator, the city is the
  text before the first separator and the province the text between the first separator
  and the next one (or the end); the hotline is kept only when its normalised city
  matches and, provided that province part is not empty, its normalised province matches
  too. A value without a separator (legacy bare city) keeps a hotline when its normalised
  city matches. With the filter \<^verbatim>\<open>manila|metro manila\<close> and the two Manila hotlines
  of Metro Manila and Metro Cebu, only the first is returned.
\<close>

theorem city_filter_composite_or_legacy:
  "(city fo = c @ ''|'' @ p @ rest \<and> CHR ''|'' \<notin> set c \<and> CHR ''|'' \<notin> set p \<and>
      (rest = [] \<or> hd rest = CHR ''|'') \<longrightarrow>
    hotlineInLocation fo h =
      ((region fo = [] \<or> normalizeString (regionName h) = normalizeString (region fo)) \<and>
       (province fo = [] \<or> normalizeString (Hotline.province h) = normalizeString (province fo)) \<and>
       normalizeString (Hotline.city h) = normalizeString c \<and>
       (p \<noteq> [] \<longrightarrow> normalizeString (Hotline.province h) = normalizeString p))) \<and>
   (city fo \<noteq> [] \<and> CHR ''|'' \<notin> set (city fo) \<longrightarrow>
    hotlineInLocation fo h =
      ((region fo = [] \<or> normalizeString (regionName h) = normalizeString (region fo)) \<and>
       (province fo = [] \<or> normalizeString (Hotline.province h) = normalizeString (province fo)) \<and>
       normalizeString (Hotline.city h) = normalizeString (city fo))) \<and>
   (category fo = ''All Hotlines'' \<longrightarrow>
    selectedHotlines hs fo = Inr (filter (hotlineInLocation fo) hs)) \<and>
   sortedSelectedHotlines collator [manilaMetroManila, manilaMetroCebu]
       (unsetFilter\<lparr>city := ''manila|metro manila''\<rparr>) = Inr [manilaMetroManila]"
proof (intro conjI impI)
  assume a: "city fo = c @ ''|'' @ p @ rest \<and> CHR ''|'' \<notin> set c \<and> CHR ''|'' \<notin> set p \<and>
      (rest = [] \<or> hd rest = CHR ''|'')"
  then have "extractLocationFromFilter (city fo) = (c, Some p)"
    using extractLocationFromFilter_composite [of c p rest] by simp
  moreover from a have "city fo \<noteq> []" by simp
  ultimately show "hotlineInLocation fo h =
      ((region fo = [] \<or> normalizeString (regionName h) = normalizeString (region fo)) \<and>
       (province fo = [] \<or> normalizeString (Hotline.province h) = normalizeString (province fo)) \<and>
       normalizeString (Hotline.city h) = normalizeString c \<and>
       (p \<noteq> [] \<longrightarrow> normalizeString (Hotline.province h) = normalizeString p))"
    by (auto simp: hotlineInLocation_def)
next
  assume a: "city fo \<noteq> [] \<and> CHR ''|'' \<notin> set (city fo)"
  then have "extractLocationFromFilter (city fo) = (city fo, None)"
    by (simp add: extractLocationFromFilter_legacy)
  with a show "hotlineInLocation fo h =
      ((region fo = [] \<or> normalizeString (regionName h) = normalizeString (region fo)) \<and>
       (province fo = [] \<or> normalizeString (Hotline.province h) = normalizeString (province fo)) \<and>
       normalizeString (Hotline.city h) = normalizeString (city fo))"
    by (auto simp: hotlineInLocation_def)
next
  assume "category fo = ''All Hotlines''"
  then show "selectedHotlines hs fo = Inr (filter (hotlineInLocation fo) hs)"
    by (simp add: selectedHotlines_def)
next
  show "sortedSelectedHotlines collator [manilaMetroManila, manilaMetroCebu]
       (unsetFilter\<lparr>city := ''manila|metro manila''\<rparr>) = Inr [manilaMetroManila]"
    by (simp add: sortedSelectedHotlines_def selectedHotlines_def hotlineInLocation_def
          extractLocationFromFilter_def Array_sort_def
          manilaMetroManila_def manilaMetroCebu_def unsetFilter_def string_evals)
qed

theorem city_filter_composite_or_legacy_witness:
  "hotlineInLocation (unsetFilter\<lparr>city := ''manila|metro manila''\<rparr>) manilaMetroManila \<and>
   \<not> hotlineInLocation (unsetFilter\<lparr>city := ''manila|metro manila''\<rparr>) manilaMetroCebu \<and>
   hotlineInLocation (unsetFilter\<lparr>city := ''manila''\<rparr>) manilaMetroCebu \<and>
   selectedHotlines [manilaMetroManila, manilaMetroCebu] (unsetFilter\<lparr>city := ''manila''\<rparr>) =
     Inr [manilaMetroManila, manilaMetroCebu]"
proof -
  let ?composite = "unsetFilter\<lparr>city := ''manila|metro manila''\<rparr>"
  let ?legacy = "unsetFilter\<lparr>city := ''manila''\<rparr>"
  have parts: "city ?composite = ''manila'' @ ''|'' @ ''metro manila'' @ [] \<and>
      CHR ''|'' \<notin> set ''manila'' \<and> CHR ''|'' \<notin> set ''metro manila'' \<and>
      ([] = [] \<or> hd [] = CHR ''|'')"
    by simp
  have bare: "city ?legacy \<noteq> [] \<and> CHR ''|'' \<notin> set (city ?legacy)"
    by simp
  have unset: "region ?composite = []" "province ?composite = []"
    "region ?legacy = []" "province ?legacy = []" "category ?legacy = ''All Hotlines''"
    by (simp_all add: unsetFilter_def)
  have names: "normalizeString (Hotline.city manilaMetroManila) = normalizeString ''manila''"
    "normalizeString (Hotline.province manilaMetroManila) = normalizeString ''metro manila''"
    "normalizeString (Hotline.city manilaMetroCebu) = normalizeString ''manila''"
    "normalizeString (Hotline.province manilaMetroCebu) \<noteq> normalizeString ''metro manila''"
    by (simp_all add: manilaMetroManila_def manilaMetroCebu_def string_evals)
  from city_filter_composite_or_legacy
         [of ?composite "''manila''" "''metro manila''" "[]" manilaMetroManila] parts unset names
  have a: "hotlineInLocation ?composite manilaMetroManila"
    by simp
  from city_filter_composite_or_legacy
         [of ?composite "''manila''" "''metro manila''" "[]" manilaMetroCebu] parts unset names
  have b: "\<not> hotlineInLocation ?composite manilaMetroCebu"
    by simp
  from city_filter_composite_or_legacy
         [of ?legacy _ _ _ manilaMetroCebu "[manilaMetroManila, manilaMetroCebu]"] bare unset names
  have c: "hotlineInLocation ?legacy manilaMetroCebu"
    and sel: "selectedHotlines [manilaMetroManila, manilaMetroCebu] ?legacy =
           Inr (filter (hotlineInLocation ?legacy) [manilaMetroManila, manilaMetroCebu])"
    by simp_all
  from city_filter_composite_or_legacy [of ?legacy _ _ _ manilaMetroManila] bare unset names
  have d: "hotlineInLocation ?legacy manilaMetroManila"
    by simp
  from a b c d sel show ?thesis by simp
qed

section \<open>The sort as a stable sort by key\<close>

lemma localeCompare_le: "localeCompare collator a b \<le> 0 \<longleftrightarrow> collator a \<le> collator b"
  by (auto simp: localeCompare_def)

lemma localeCompare_eq: "localeCompare collator a b = 0 \<longleftrightarrow> collator a = collator b"
  by (auto simp: localeCompare_def)

lemma compareHotlines_le: "compareHotlines collator a b \<le> 0 \<longleftrightarrow> sortKey collator a \<le> sortKey collator b"
  by (auto simp: compareHotlines_def sortKey_def Let_def localeCompare_le less_eq_prod_def)

lemma compareHotlines_eq: "compareHotlines collator a b = 0 \<longleftrightarrow> sortKey collator a = sortKey collator b"
  by (auto simp: compareHotlines_def sortKey_def Let_def localeCompare_eq)

lemma insertSorted_insort: "insertSorted (compareHotlines collator) x ys = insort_key (sortKey collator) x ys"
  by (induction ys) (simp_all add: compareHotlines_le)

lemma Array_sort_sort_key: "Array_sort (compareHotlines collator) xs = sort_key (sortKey collator) xs"
  unfolding Array_sort_def sort_key_def
  by (induction xs) (simp_all add: insertSorted_insort)

lemma keptBy_all: "category fo = ''All Hotlines'' \<Longrightarrow> keptBy fo = hotlineInLocation fo"
  by (simp add: fun_eq_iff keptBy_def)

lemma selectedHotlines_Inr:
  assumes "selectedHotlines hs fo = Inr sel"
  shows "sel = filter (keptBy fo) hs"
proof (cases "category fo = ''All Hotlines''")
  case True
  with assms show ?thesis
    by (auto simp: selectedHotlines_def keptBy_all)
next
  case False
  show ?thesis
  proof (cases "hotlineTypeMap (category fo)")
    case None
    with False assms have "filter (hotlineInLocation fo) hs = []" "sel = []"
      by (auto simp: selectedHotlines_def Let_def split: if_splits)
    moreover have "filter (keptBy fo) hs = filter (\<lambda>h. False) (filter (hotlineInLocation fo) hs)"
      using None False by (simp add: keptBy_def conj_commute)
    ultimately show ?thesis by simp
  next
    case (Some cats)
    with False have "keptBy fo = (\<lambda>h. hotlineInLocation fo h \<and> Hotline.category h \<in> set cats)"
      by (simp add: fun_eq_iff keptBy_def)
    with Some False assms show ?thesis
      by (auto simp: selectedHotlines_def Let_def)
  qed
qed

lemma sortedSelectedHotlines_Inr:
  assumes "sortedSelectedHotlines collator hs fo = Inr out"
  shows "out = sort_key (sortKey collator) (filter (keptBy fo) hs)"
proof -
  from assms obtain sel where "selectedHotlines hs fo = Inr sel"
    "out = Array_sort (compareHotlines collator) sel"
    by (auto simp: sortedSelectedHotlines_def split: sum.splits)
  with selectedHotlines_Inr [of hs fo sel] show ?thesis
    by (simp add: Array_sort_sort_key)
qed

lemma sorted_output:
  assumes "sortedSelectedHotlines collator hs fo = Inr out"
  shows "sorted_wrt (\<lambda>a b. compareHotlines collator a b \<le> 0) out"
  unfolding sortedSelectedHotlines_Inr [OF assms] compareHotlines_le
  using sorted_sort_key [of "sortKey collator" "filter (keptBy fo) hs"] by (simp add: sorted_map)

lemma compareHotlines_less_position:
  assumes out: "sortedSelectedHotlines collator hs fo = Inr out"
    and ij: "i < length out" "j < length out"
    and lt: "compareHotlines collator (out ! i) (out ! j) < 0"
  shows "i < j"
proof (rule ccontr)
  assume "\<not> i < j"
  then consider "i = j" | "j < i" by linarith
  then show False
  proof cases
    case 1
    with lt have "compareHotlines collator (out ! i) (out ! i) < 0" by simp
    moreover have "compareHotlines collator (out ! i) (out ! i) = 0"
      by (simp add: compareHotlines_eq)
    ultimately show False by simp
  next
    case 2
    with sorted_output [OF out] ij have "compareHotlines collator (out ! j) (out ! i) \<le> 0"
      by (simp add: sorted_wrt_iff_nth_less)
    then have "sortKey collator (out ! j) \<le> sortKey collator (out ! i)"
      by (simp add: compareHotlines_le)
    moreover from lt have "sortKey collator (out ! i) \<le> sortKey collator (out ! j)"
      "sortKey collator (out ! i) \<noteq> sortKey collator (out ! j)"
      using compareHotlines_le [of collator "out ! i" "out ! j"]
        compareHotlines_eq [of collator "out ! i" "out ! j"]
      by auto
    ultimately show False by simp
  qed
qed

lemma stable_output:
  assumes "sortedSelectedHotlines collator hs fo = Inr out"
  shows "filter (\<lambda>h. compareHotlines collator h a = 0) out =
         filter (\<lambda>h. compareHotlines collator h a = 0 \<and> h \<in> set out) hs"
proof -
  have out: "out = sort_key (sortKey collator) (filter (keptBy fo) hs)"
    by (rule sortedSelectedHotlines_Inr [OF assms])
  have "filter (\<lambda>h. sortKey collator h = sortKey collator a) out = filter (\<lambda>h. sortKey collator h = sortKey collator a) (filter (keptBy fo) hs)"
    unfolding out by (rule sort_key_stable)
  also have "\<dots> = filter (\<lambda>h. sortKey collator h = sortKey collator a \<and> h \<in> set out) hs"
    unfolding out by (auto intro: filter_cong)
  finally show ?thesis by (simp add: compareHotlines_eq)
qed

lemma sort_key_inj_mset:
  assumes m: "mset xs = mset ys" and inj: "inj_on f (set xs)"
  shows "sort_key f xs = sort_key f ys"
proof (rule properties_for_sort_key)
  show "mset (sort_key f ys) = mset xs" using m by simp
next
  fix k assume "k \<in> set (sort_key f ys)"
  then have k: "k \<in> set xs" using m by (metis set_mset_mset set_sort)
  have sets: "set ys = set xs" using m by (metis set_mset_mset)
  have "filter (\<lambda>x. f k = f x) (sort_key f ys) = filter (\<lambda>x. f k = f x) ys"
    using sort_key_stable [of f "f k" ys] by (simp add: eq_commute)
  also have "\<dots> = filter ((=) k) ys"
    using inj k sets by (intro inj_on_filter_key_eq) (simp add: insert_absorb)
  also have "\<dots> = replicate (count (mset ys) k) k"
    by (simp only: replicate_count_mset_eq_filter_eq)
  also have "\<dots> = filter ((=) k) xs"
    by (simp only: m [symmetric] replicate_count_mset_eq_filter_eq)
  also have "\<dots> = filter (\<lambda>x. f k = f x) xs"
    using inj k by (intro inj_on_filter_key_eq [symmetric]) (simp add: insert_absorb)
  finally show "filter (\<lambda>x. f k = f x) (sort_key f ys) = filter (\<lambda>x. f k = f x) xs" .
next
  show "sorted (map f (sort_key f ys))" by (rule sorted_sort_key)
qed

lemma selectedHotlines_cases:
  "selectedHotlines hs fo =
     (if category fo \<noteq> ''All Hotlines'' \<and> hotlineTypeMap (category fo) = None \<and>
         filter (hotlineInLocation fo) hs \<noteq> []
      then Inl TypeError else Inr (filter (keptBy fo) hs))"
proof (cases "selectedHotlines hs fo")
  case (Inl e)
  then show ?thesis
    by (auto simp: selectedHotlines_def Let_def split: if_splits option.splits)
next
  case (Inr sel)
  from selectedHotlines_Inr [OF this] Inr show ?thesis
    by (auto simp: selectedHotlines_def Let_def split: if_splits option.splits)
qed

lemma order_independent_output:
  assumes m: "mset hs = mset hs'"
    and distinct_keys: "\<forall>a \<in> set hs. \<forall>b \<in> set hs. compareHotlines collator a b = 0 \<longrightarrow> a = b"
  shows "sortedSelectedHotlines collator hs fo = sortedSelectedHotlines collator hs' fo"
proof -
  have mf: "mset (filter P hs) = mset (filter P hs')" for P
    using m by (metis mset_filter)
  have empty: "filter (hotlineInLocation fo) hs = [] \<longleftrightarrow> filter (hotlineInLocation fo) hs' = []"
    using mf [of "hotlineInLocation fo"] by (metis mset_zero_iff)
  have "inj_on (sortKey collator) (set hs)"
    using distinct_keys by (auto simp: inj_on_def compareHotlines_eq)
  then have "inj_on (sortKey collator) (set (filter (keptBy fo) hs))"
    by (rule inj_on_subset) auto
  with mf [of "keptBy fo"]
  have "sort_key (sortKey collator) (filter (keptBy fo) hs) = sort_key (sortKey collator) (filter (keptBy fo) hs')"
    by (rule sort_key_inj_mset)
  with empty show ?thesis
    by (simp add: sortedSelectedHotlines_def selectedHotlines_cases Array_sort_sort_key)
qed

lemmas engine_evals = sortedSelectedHotlines_def selectedHotlines_def hotlineInLocation_def
  extractLocationFromFilter_def Array_sort_def compareHotlines_def localeCompare_def
  hotlineTypeMap_def unsetFilter_def Let_def

lemma sortRank_inj: "sortRank c = sortRank d \<longleftrightarrow> c = d"
  by (cases c; cases d) simp_all

lemma compareHotlines_zero:
  "compareHotlines collator a b = 0 \<longleftrightarrow>
     Hotline.category a = Hotline.category b \<and>
     collator (hotlineName a) = collator (hotlineName b)"
  by (simp add: compareHotlines_eq sortKey_def sortRank_inj)

lemma lowerChar_idem: "lowerChar (lowerChar c) = lowerChar c"
  by (cases c) (auto simp: isUpper_def)

lemma lettersCollator_case: "lettersCollator (toLowerCase str) = lettersCollator str"
  by (simp add: lettersCollator_def toLowerCase_def lowerChar_idem)

lemma compareHotlines_le_unfold:
  "compareHotlines collator a b \<le> 0 \<longleftrightarrow>
     sortRank (Hotline.category a) < sortRank (Hotline.category b) \<or>
     (sortRank (Hotline.category a) = sortRank (Hotline.category b) \<and>
      localeCompare collator (hotlineName a) (hotlineName b) \<le> 0)"
  by (auto simp: compareHotlines_def Let_def)

section \<open>C4: the order of the result\<close>

text \<open>
  The claim says that any two hotlines with distinct (category, name) pairs come out in an
  order that does not depend on the input order. The name comparison is made at base
  sensitivity, which ignores letter case: two police hotlines named \<^verbatim>\<open>PNP\<close> and
  \<^verbatim>\<open>pnp\<close> have distinct names, compare equal, and come out in their input order.
\<close>

theorem sort_order_counterexample:
  "(Hotline.category pnpUpper, hotlineName pnpUpper) \<noteq> (Hotline.category pnpLower, hotlineName pnpLower) \<and>
   localeCompare lettersCollator (hotlineName pnpUpper) (hotlineName pnpLower) = 0 \<and>
   sortedSelectedHotlines lettersCollator [pnpUpper, pnpLower] unsetFilter = Inr [pnpUpper, pnpLower] \<and>
   sortedSelectedHotlines lettersCollator [pnpLower, pnpUpper] unsetFilter = Inr [pnpLower, pnpUpper]"
  by (simp add: engine_evals lettersCollator_def pnpUpper_def pnpLower_def string_evals)

text \<open>
  Claim C4, as the code has it, for every collation of the host: the result of the filter
  engine is sorted by the category rank police 0, medical 1, fire 2, government 3,
  utility 4, ties broken by the host's comparison of the names at base sensitivity. Two
  hotlines that compare unequal (they differ in category, or their names compare unequal)
  come out smaller first whatever the input order, and an input in which all distinct
  hotlines compare unequal gives the same result in every arrangement. Hotlines that
  compare equal, which are those of the same category whose names have the same sort key,
  keep their relative input order; identical names compare equal, and so do names that
  differ in letter case only when the collation ignores case.
\<close>

theorem sorted_by_rank_then_name_stable:
  "(sortedSelectedHotlines collator hs fo = Inr out \<longrightarrow>
      (\<forall>i j. i < j \<and> j < length out \<longrightarrow>
         sortRank (Hotline.category (out ! i)) < sortRank (Hotline.category (out ! j)) \<or>
         (sortRank (Hotline.category (out ! i)) = sortRank (Hotline.category (out ! j)) \<and>
          localeCompare collator (hotlineName (out ! i)) (hotlineName (out ! j)) \<le> 0)) \<and>
      (\<forall>i j. i < length out \<and> j < length out \<and> compareHotlines collator (out ! i) (out ! j) < 0 \<longrightarrow> i < j) \<and>
      (\<forall>a. filter (\<lambda>h. compareHotlines collator h a = 0) out =
           filter (\<lambda>h. compareHotlines collator h a = 0 \<and> h \<in> set out) hs)) \<and>
   (mset hs = mset hs' \<and> (\<forall>a \<in> set hs. \<forall>b \<in> set hs. compareHotlines collator a b = 0 \<longrightarrow> a = b) \<longrightarrow>
      sortedSelectedHotlines collator hs fo = sortedSelectedHotlines collator hs' fo) \<and>
   (compareHotlines collator a b = 0 \<longleftrightarrow>
      Hotline.category a = Hotline.category b \<and>
      localeCompare collator (hotlineName a) (hotlineName b) = 0) \<and>
   (Hotline.category a = Hotline.category b \<and> hotlineName a = hotlineName b \<longrightarrow>
      compareHotlines collator a b = 0) \<and>
   ((\<forall>str. collator (toLowerCase str) = collator str) \<and>
    Hotline.category a = Hotline.category b \<and>
    toLowerCase (hotlineName a) = toLowerCase (hotlineName b) \<longrightarrow>
      compareHotlines collator a b = 0) \<and>
   map sortRank [police_hotlines, medical_hotlines, fire_hotlines, government_hotlines,
                 utility_hotlines] = [0, 1, 2, 3, 4]"
proof (intro conjI impI allI)
  fix i j
  assume out: "sortedSelectedHotlines collator hs fo = Inr out" and ij: "i < j \<and> j < length out"
  from sorted_output [OF out] ij have "compareHotlines collator (out ! i) (out ! j) \<le> 0"
    by (simp add: sorted_wrt_iff_nth_less)
  then show "sortRank (Hotline.category (out ! i)) < sortRank (Hotline.category (out ! j)) \<or>
         (sortRank (Hotline.category (out ! i)) = sortRank (Hotline.category (out ! j)) \<and>
          localeCompare collator (hotlineName (out ! i)) (hotlineName (out ! j)) \<le> 0)"
    by (simp add: compareHotlines_le_unfold)
next
  fix i j
  assume "sortedSelectedHotlines collator hs fo = Inr out"
    and "i < length out \<and> j < length out \<and> compareHotlines collator (out ! i) (out ! j) < 0"
  then show "i < j"
    using compareHotlines_less_position [of collator hs fo out i j] by simp
next
  fix a
  assume "sortedSelectedHotlines collator hs fo = Inr out"
  then show "filter (\<lambda>h. compareHotlines collator h a = 0) out =
           filter (\<lambda>h. compareHotlines collator h a = 0 \<and> h \<in> set out) hs"
    by (rule stable_output)
next
  assume "mset hs = mset hs' \<and> (\<forall>a \<in> set hs. \<forall>b \<in> set hs. compareHotlines collator a b = 0 \<longrightarrow> a = b)"
  then show "sortedSelectedHotlines collator hs fo = sortedSelectedHotlines collator hs' fo"
    using order_independent_output [of hs hs' collator fo] by simp
next
  show "compareHotlines collator a b = 0 \<longleftrightarrow>
      Hotline.category a = Hotline.category b \<and>
      localeCompare collator (hotlineName a) (hotlineName b) = 0"
    by (simp add: compareHotlines_zero localeCompare_eq)
next
  assume "Hotline.category a = Hotline.category b \<and> hotlineName a = hotlineName b"
  then show "compareHotlines collator a b = 0"
    by (simp add: compareHotlines_zero)
next
  assume c: "(\<forall>str. collator (toLowerCase str) = collator str) \<and>
    Hotline.category a = Hotline.category b \<and>
    toLowerCase (hotlineName a) = toLowerCase (hotlineName b)"
  then have "collator (toLowerCase (hotlineName a)) = collator (hotlineName a)"
    "collator (toLowerCase (hotlineName b)) = collator (hotlineName b)"
    by blast+
  with c have "collator (hotlineName a) = collator (hotlineName b)"
    by metis
  with c show "compareHotlines collator a b = 0"
    by (simp add: compareHotlines_zero)
next
  show "map sortRank [police_hotlines, medical_hotlines, fire_hotlines, government_hotlines,
                 utility_hotlines] = [0, 1, 2, 3, 4]"
    by simp
qed

lemma example_sorted:
  "sortedSelectedHotlines lettersCollator
     [manilaMetroCebu, pnpLower, manilaMetroManila, pnpUpper] unsetFilter =
     Inr [manilaMetroManila, pnpLower, pnpUpper, manilaMetroCebu]"
  by (simp add: engine_evals lettersCollator_def pnpUpper_def pnpLower_def manilaMetroManila_def
        manilaMetroCebu_def string_evals)

lemma example_compare:
  "compareHotlines lettersCollator manilaMetroManila manilaMetroCebu \<noteq> 0"
  "compareHotlines lettersCollator manilaMetroCebu manilaMetroManila \<noteq> 0"
  "compareHotlines lettersCollator pnpLower pnpUpper = 0"
  "compareHotlines lettersCollator pnpUpper pnpUpper = 0"
  "compareHotlines lettersCollator manilaMetroManila pnpUpper \<noteq> 0"
  "compareHotlines lettersCollator manilaMetroCebu pnpUpper \<noteq> 0"
  "compareHotlines lettersCollator manilaMetroManila pnpLower < 0"
  by (simp_all add: compareHotlines_def localeCompare_def lettersCollator_def Let_def
        pnpUpper_def pnpLower_def manilaMetroManila_def manilaMetroCebu_def string_evals)

theorem sorted_by_rank_then_name_stable_witness:
  "sortedSelectedHotlines lettersCollator
     [manilaMetroCebu, pnpLower, manilaMetroManila, pnpUpper] unsetFilter =
     Inr [manilaMetroManila, pnpLower, pnpUpper, manilaMetroCebu] \<and>
   compareHotlines lettersCollator manilaMetroManila pnpLower < 0 \<and>
   filter (\<lambda>h. compareHotlines lettersCollator h pnpUpper = 0)
          [manilaMetroManila, pnpLower, pnpUpper, manilaMetroCebu] = [pnpLower, pnpUpper] \<and>
   mset [manilaMetroCebu, manilaMetroManila] = mset [manilaMetroManila, manilaMetroCebu] \<and>
   sortedSelectedHotlines lettersCollator [manilaMetroCebu, manilaMetroManila] unsetFilter =
     sortedSelectedHotlines lettersCollator [manilaMetroManila, manilaMetroCebu] unsetFilter \<and>
   (\<forall>str. lettersCollator (toLowerCase str) = lettersCollator str) \<and>
   Hotline.category pnpLower = Hotline.category pnpUpper \<and>
   toLowerCase (hotlineName pnpLower) = toLowerCase (hotlineName pnpUpper) \<and>
   compareHotlines lettersCollator pnpLower pnpUpper = 0"
proof -
  let ?hs = "[manilaMetroCebu, pnpLower, manilaMetroManila, pnpUpper]"
  let ?out = "[manilaMetroManila, pnpLower, pnpUpper, manilaMetroCebu]"
  note inst = sorted_by_rank_then_name_stable [of lettersCollator ?hs unsetFilter ?out]
  have stable: "filter (\<lambda>h. compareHotlines lettersCollator h pnpUpper = 0) ?out =
      filter (\<lambda>h. compareHotlines lettersCollator h pnpUpper = 0 \<and> h \<in> set ?out) ?hs"
    using inst example_sorted by blast
  have kept: "filter (\<lambda>h. compareHotlines lettersCollator h pnpUpper = 0) ?out = [pnpLower, pnpUpper]"
    unfolding stable by (simp add: example_compare)
  have m: "mset [manilaMetroCebu, manilaMetroManila] = mset [manilaMetroManila, manilaMetroCebu]"
    by simp
  have d: "\<forall>a \<in> set [manilaMetroCebu, manilaMetroManila].
           \<forall>b \<in> set [manilaMetroCebu, manilaMetroManila].
             compareHotlines lettersCollator a b = 0 \<longrightarrow> a = b"
    by (simp add: example_compare)
  from sorted_by_rank_then_name_stable
         [of lettersCollator "[manilaMetroCebu, manilaMetroManila]" unsetFilter _
             "[manilaMetroManila, manilaMetroCebu]"] m d
  have indep: "sortedSelectedHotlines lettersCollator [manilaMetroCebu, manilaMetroManila] unsetFilter =
     sortedSelectedHotlines lettersCollator [manilaMetroManila, manilaMetroCebu] unsetFilter"
    by blast
  have ci: "\<forall>str. lettersCollator (toLowerCase str) = lettersCollator str"
    by (simp add: lettersCollator_case)
  have same: "Hotline.category pnpLower = Hotline.category pnpUpper"
    "toLowerCase (hotlineName pnpLower) = toLowerCase (hotlineName pnpUpper)"
    by (simp_all add: pnpUpper_def pnpLower_def toLowerCase_def isUpper_def)
  from sorted_by_rank_then_name_stable [of lettersCollator _ _ _ _ pnpLower pnpUpper] ci same
  have eq: "compareHotlines lettersCollator pnpLower pnpUpper = 0"
    by blast
  from example_sorted example_compare(7) kept m indep ci same eq show ?thesis by blast
qed

section \<open>C8: the category filter\<close>






section \<open>C10: the category values the buttons can set\<close>

lemma hotlineTypeMap_dom:
  "dom hotlineTypeMap =
     {''Emergency Hotlines'', ''Medical Hotlines'', ''Government Hotlines'', ''Utility Hotlines''}"
  by (auto simp: hotlineTypeMap_def split: if_splits)

lemma categoryButtons_values:
  "map (\<lambda>hotlineType. category (filterOptions (categoryButtonClick hotlineType st))) categoryButtons =
     [''All Hotlines'', ''Emergency Hotlines'', ''Medical Hotlines'', ''Government Hotlines'',
      ''Utility Hotlines'']"
  by (simp add: categoryButtons_def categoryButtonClick_def hotlineCategoryMap_def)

text \<open>
  Claim C10: the category is \<^verbatim>\<open>All Hotlines\<close> at the start and after the
  \<^verbatim>\<open>View All Hotlines\<close> button, and the five category buttons set exactly the five
  values \<^verbatim>\<open>All Hotlines\<close>, \<^verbatim>\<open>Emergency Hotlines\<close>, \<^verbatim>\<open>Medical Hotlines\<close>,
  \<^verbatim>\<open>Government Hotlines\<close>, \<^verbatim>\<open>Utility Hotlines\<close>. For each of these the lookup
  in \<open>hotlineTypeMap\<close> made when the category is not \<^verbatim>\<open>All Hotlines\<close> is defined
  and the filter step returns a list. For any other category the entry is absent, and the
  filter step throws exactly when some hotline passes the location filter (the callback
  that reads the absent entry runs once per such hotline).
\<close>

theorem category_step_total_on_button_values:
  "category (filterOptions (initialState stored)) = ''All Hotlines'' \<and>
   category (filterOptions (viewAllHotlinesClick st)) = ''All Hotlines'' \<and>
   map (\<lambda>hotlineType. category (filterOptions (categoryButtonClick hotlineType st))) categoryButtons =
     [''All Hotlines'', ''Emergency Hotlines'', ''Medical Hotlines'', ''Government Hotlines'',
      ''Utility Hotlines''] \<and>
   (category fo \<in> {''All Hotlines'', ''Emergency Hotlines'', ''Medical Hotlines'',
                    ''Government Hotlines'', ''Utility Hotlines''} \<longrightarrow>
      (category fo \<noteq> ''All Hotlines'' \<longrightarrow> hotlineTypeMap (category fo) \<noteq> None) \<and>
      (\<exists>out. selectedHotlines hs fo = Inr out)) \<and>
   (category fo \<notin> {''All Hotlines'', ''Emergency Hotlines'', ''Medical Hotlines'',
                    ''Government Hotlines'', ''Utility Hotlines''} \<longrightarrow>
      hotlineTypeMap (category fo) = None \<and>
      (selectedHotlines hs fo = Inl TypeError \<longleftrightarrow> filter (hotlineInLocation fo) hs \<noteq> []))"
proof (intro conjI impI)
  show "category (filterOptions (initialState stored)) = ''All Hotlines''"
    by (simp add: initialState_def)
  show "category (filterOptions (viewAllHotlinesClick st)) = ''All Hotlines''"
    by (simp add: viewAllHotlinesClick_def)
  show "map (\<lambda>hotlineType. category (filterOptions (categoryButtonClick hotlineType st))) categoryButtons =
     [''All Hotlines'', ''Emergency Hotlines'', ''Medical Hotlines'', ''Government Hotlines'',
      ''Utility Hotlines'']"
    by (rule categoryButtons_values)
next
  assume "category fo \<in> {''All Hotlines'', ''Emergency Hotlines'', ''Medical Hotlines'',
                    ''Government Hotlines'', ''Utility Hotlines''}"
    and "category fo \<noteq> ''All Hotlines''"
  then have "category fo \<in> dom hotlineTypeMap"
    unfolding hotlineTypeMap_dom by blast
  then show "hotlineTypeMap (category fo) \<noteq> None"
    by blast
next
  assume a: "category fo \<in> {''All Hotlines'', ''Emergency Hotlines'', ''Medical Hotlines'',
                    ''Government Hotlines'', ''Utility Hotlines''}"
  then have "category fo = ''All Hotlines'' \<or> category fo \<in> dom hotlineTypeMap"
    unfolding hotlineTypeMap_dom by blast
  then show "\<exists>out. selectedHotlines hs fo = Inr out"
    by (auto simp: selectedHotlines_def Let_def)
next
  assume a: "category fo \<notin> {''All Hotlines'', ''Emergency Hotlines'', ''Medical Hotlines'',
                    ''Government Hotlines'', ''Utility Hotlines''}"
  then have "category fo \<notin> dom hotlineTypeMap"
    unfolding hotlineTypeMap_dom by blast
  then show none: "hotlineTypeMap (category fo) = None"
    by blast
  from a have "category fo \<noteq> ''All Hotlines''" by blast
  with none show "selectedHotlines hs fo = Inl TypeError \<longleftrightarrow> filter (hotlineInLocation fo) hs \<noteq> []"
    by (simp add: selectedHotlines_def Let_def)
qed

theorem category_step_total_on_button_values_witness:
  "selectedHotlines [manilaHospital, pnpUpper] (unsetFilter\<lparr>category := ''Medical Hotlines''\<rparr>) =
     Inr [manilaHospital] \<and>
   hotlineTypeMap ''Emergency'' = None \<and>
   filter (hotlineInLocation (unsetFilter\<lparr>category := ''Emergency''\<rparr>)) [manilaHospital, pnpUpper] =
     [manilaHospital, pnpUpper] \<and>
   selectedHotlines [manilaHospital, pnpUpper] (unsetFilter\<lparr>category := ''Emergency''\<rparr>) =
     Inl TypeError \<and>
   selectedHotlines [] (unsetFilter\<lparr>category := ''Emergency''\<rparr>) = Inr []"
proof -
  let ?hs = "[manilaHospital, pnpUpper]"
  let ?bad = "unsetFilter\<lparr>category := ''Emergency''\<rparr>"
  have out: "category ?bad \<notin> {''All Hotlines'', ''Emergency Hotlines'', ''Medical Hotlines'',
                    ''Government Hotlines'', ''Utility Hotlines''}"
    by simp
  have loc: "filter (hotlineInLocation ?bad) ?hs = ?hs"
    by (simp add: hotlineInLocation_def unsetFilter_def)
  from category_step_total_on_button_values [of _ _ ?bad ?hs] out loc
  have bad: "hotlineTypeMap ''Emergency'' = None" "selectedHotlines ?hs ?bad = Inl TypeError"
    by simp_all
  have empty: "selectedHotlines [] ?bad = Inr []"
    by (simp add: selectedHotlines_def hotlineTypeMap_def)
  have good: "selectedHotlines ?hs (unsetFilter\<lparr>category := ''Medical Hotlines''\<rparr>) = Inr [manilaHospital]"
    by (simp add: selectedHotlines_def hotlineTypeMap_def hotlineInLocation_def unsetFilter_def
          manilaHospital_def pnpUpper_def)
  from good bad loc empty show ?thesis by simp
qed

section \<open>The resolver, stage by stage\<close>

lemma findInProvinces_None:
  "\<forall>p \<in> set ps. \<forall>c \<in> set (cities p). normalizeString c \<noteq> n \<Longrightarrow> findInProvinces n r ps = None"
proof (induction ps)
  case Nil
  then show ?case by simp
next
  case (Cons p ps)
  then have "find (\<lambda>c. normalizeString c = n) (cities p) = None"
    by (simp add: find_None_iff)
  with Cons show ?case by simp
qed

lemma findInRegions_None:
  "\<forall>r \<in> set rs. \<forall>p \<in> set (provinces r). \<forall>c \<in> set (cities p). normalizeString c \<noteq> n \<Longrightarrow>
   findInRegions n rs = None"
  by (induction rs) (simp_all add: findInProvinces_None)

lemma findLocationInMetadata_None:
  "\<forall>r \<in> set (regions (metadata md)). \<forall>p \<in> set (provinces r). \<forall>c \<in> set (cities p).
     normalizeString c \<noteq> normalizeString cityName \<Longrightarrow>
   findLocationInMetadata md cityName = None"
  by (simp add: findLocationInMetadata_def findInRegions_None)

lemma getDefaultLocation_first:
  assumes "regions (metadata md) = r # rs" and "provinces r = p # ps"
  shows "getDefaultLocation md =
     Inr \<lparr>region = normalizeString (name r), province = normalizeString (Province.province p),
          city = normalizeString ((case cities p of [] \<Rightarrow> ''undefined'' | c # _ \<Rightarrow> c) @ ''|'' @
                                  Province.province p)\<rparr>"
  using assms by (simp add: getDefaultLocation_def Let_def)

lemma getLocation_success:
  assumes "geolocation browser = Position"
    and "reverseGeocode browser = Response True (Some (Some cityName))"
  shows "getLocation md browser st =
     (let st2 = logEvent (DetectedCity (Some cityName)) (logEvent GeolocationCoords st) in
      case findLocationInMetadata md cityName of
        Some matchedLocation \<Rightarrow>
          Inr ((updateLocation matchedLocation
                  (logEvent (LocationDetectedAndMatched matchedLocation) st2))
                 \<lparr>isDetectingLocation := False\<rparr>)
      | None \<Rightarrow>
          (case getDefaultLocation md of
             Inl e \<Rightarrow> loadStoredLocation md browser e (logEvent CityNotFoundUsingDefaults st2)
           | Inr d \<Rightarrow>
               Inr ((updateLocation d (logEvent CityNotFoundUsingDefaults st2))
                      \<lparr>isDetectingLocation := False\<rparr>)))"
  using assms by (simp add: getLocation_def getCoords_def Let_def)

lemma getLocation_failure:
  assumes "geolocation browser \<noteq> Position \<or>
           (\<forall>cityName. reverseGeocode browser \<noteq> Response True (Some (Some cityName)))"
  shows "\<exists>err st1. getLocation md browser st = loadStoredLocation md browser err st1 \<and>
           filterOptions st1 = filterOptions st \<and> lastSavedLocation st1 = lastSavedLocation st"
proof (cases "geolocation browser")
  case NoGeolocation
  then show ?thesis
    by (auto simp: getLocation_def getCoords_def intro!: exI)
next
  case (PositionFailure code)
  then show ?thesis
    by (auto simp: getLocation_def getCoords_def Let_def logEvent_def intro!: exI)
next
  case Position
  with assms have rg: "\<forall>cityName. reverseGeocode browser \<noteq> Response True (Some (Some cityName))"
    by simp
  let ?st1 = "logEvent GeolocationCoords st"
  show ?thesis
  proof (cases "reverseGeocode browser")
    case Rejected
    with Position have "getLocation md browser st = loadStoredLocation md browser FetchRejected ?st1"
      by (simp add: getLocation_def getCoords_def Let_def)
    then show ?thesis by (auto simp: logEvent_def intro!: exI)
  next
    case (Response ok body)
    show ?thesis
    proof (cases ok)
      case False
      with Position Response
      have "getLocation md browser st = loadStoredLocation md browser FailedToReverseGeocode ?st1"
        by (simp add: getLocation_def getCoords_def Let_def)
      then show ?thesis by (auto simp: logEvent_def intro!: exI)
    next
      case True
      show ?thesis
      proof (cases body)
        case None
        with Position Response True
        have "getLocation md browser st = loadStoredLocation md browser SyntaxError ?st1"
          by (simp add: getLocation_def getCoords_def Let_def)
        then show ?thesis by (auto simp: logEvent_def intro!: exI)
      next
        case (Some dataCity)
        with rg Response True have "dataCity = None"
          by (cases dataCity) auto
        with Position Response True Some
        have "getLocation md browser st =
            loadStoredLocation md browser TypeError (logEvent (DetectedCity None) ?st1)"
          by (simp add: getLocation_def getCoords_def Let_def)
        then show ?thesis by (auto simp: logEvent_def intro!: exI)
      qed
    qed
  qed
qed

lemma loadStoredLocation_legacy:
  assumes "lastSavedLocation st = Some s" and "s \<noteq> []" and "JSON_parse browser s = None"
  shows "loadStoredLocation md browser err st =
     Inr (st\<lparr>filterOptions := (filterOptions st)\<lparr>city := normalizeString s\<rparr>,
             isDetectingLocation := False,
             debugLog := debugLog st @ [GeolocationFailed err, LoadedLegacyFormat s]\<rparr>)"
  using assms by (simp add: loadStoredLocation_def Let_def logEvent_def)

section \<open>C5: no match goes to the dataset default\<close>

text \<open>
  Claim C5: when the browser reports a position and the reverse-geocode request answers
  with a city that has no normalised match in the dataset, the resolver sets the filter to
  the dataset default (the normalised first region, its normalised first province, and the
  key of that province's first city), writes it to the store, and ends the detection; the
  result does not depend on what the store held or on how it would parse. Whenever
  position and reverse-geocoding succeed, the \<^verbatim>\<open>catch\<close> block that reads the store
  is not entered (it would log \<open>GeolocationFailed\<close>). The hypotheses name the first
  region, province and city that the claim speaks of; in a dataset without a first region
  or province \<open>getDefaultLocation\<close> throws inside the \<^verbatim>\<open>try\<close> block.
\<close>

theorem no_match_goes_to_dataset_default:
  "(geolocation browser = Position \<and>
    reverseGeocode browser = Response True (Some (Some cityName)) \<and>
    (\<forall>r \<in> set (regions (metadata md)). \<forall>p \<in> set (provinces r). \<forall>c \<in> set (cities p).
        normalizeString c \<noteq> normalizeString cityName) \<and>
    regions (metadata md) = r # rs \<and> provinces r = p # ps \<and> cities p = c # cs \<longrightarrow>
    getLocation md browser st =
      Inr (st\<lparr>filterOptions := (filterOptions st)
                 \<lparr>region := normalizeString (name r),
                  province := normalizeString (Province.province p),
                  city := normalizeString (c @ ''|'' @ Province.province p)\<rparr>,
              isDetectingLocation := False,
              lastSavedLocation :=
                Some (JSON_stringify
                        \<lparr>region = normalizeString (name r),
                         province = normalizeString (Province.province p),
                         city = normalizeString (c @ ''|'' @ Province.province p)\<rparr>),
              debugLog := debugLog st @
                [GeolocationCoords, DetectedCity (Some cityName), CityNotFoundUsingDefaults]\<rparr>)) \<and>
   (geolocation browser = Position \<and>
    reverseGeocode browser = Response True (Some (Some cityName)) \<and>
    regions (metadata md) = r # rs \<and> provinces r = p # ps \<and>
    (\<forall>e. GeolocationFailed e \<notin> set (debugLog st)) \<longrightarrow>
    (\<exists>st'. getLocation md browser st = Inr st' \<and>
           (\<forall>e. GeolocationFailed e \<notin> set (debugLog st'))))"
proof (intro conjI impI)
  assume a: "geolocation browser = Position \<and>
    reverseGeocode browser = Response True (Some (Some cityName)) \<and>
    (\<forall>r \<in> set (regions (metadata md)). \<forall>p \<in> set (provinces r). \<forall>c \<in> set (cities p).
        normalizeString c \<noteq> normalizeString cityName) \<and>
    regions (metadata md) = r # rs \<and> provinces r = p # ps \<and> cities p = c # cs"
  then have none: "findLocationInMetadata md cityName = None"
    by (intro findLocationInMetadata_None) blast
  from a have d: "getDefaultLocation md =
     Inr \<lparr>region = normalizeString (name r), province = normalizeString (Province.province p),
          city = normalizeString (c @ ''|'' @ Province.province p)\<rparr>"
    using getDefaultLocation_first [of md r rs p ps] by simp
  from a have "getLocation md browser st =
      Inr ((updateLocation \<lparr>region = normalizeString (name r),
                             province = normalizeString (Province.province p),
                             city = normalizeString (c @ ''|'' @ Province.province p)\<rparr>
             (logEvent CityNotFoundUsingDefaults
               (logEvent (DetectedCity (Some cityName)) (logEvent GeolocationCoords st))))
            \<lparr>isDetectingLocation := False\<rparr>)"
    by (simp add: getLocation_success [of browser cityName md st] none d Let_def)
  then show "getLocation md browser st =
      Inr (st\<lparr>filterOptions := (filterOptions st)
                 \<lparr>region := normalizeString (name r),
                  province := normalizeString (Province.province p),
                  city := normalizeString (c @ ''|'' @ Province.province p)\<rparr>,
              isDetectingLocation := False,
              lastSavedLocation :=
                Some (JSON_stringify
                        \<lparr>region = normalizeString (name r),
                         province = normalizeString (Province.province p),
                         city = normalizeString (c @ ''|'' @ Province.province p)\<rparr>),
              debugLog := debugLog st @
                [GeolocationCoords, DetectedCity (Some cityName), CityNotFoundUsingDefaults]\<rparr>)"
    by (simp add: updateLocation_def logEvent_def)
next
  assume a: "geolocation browser = Position \<and>
    reverseGeocode browser = Response True (Some (Some cityName)) \<and>
    regions (metadata md) = r # rs \<and> provinces r = p # ps \<and>
    (\<forall>e. GeolocationFailed e \<notin> set (debugLog st))"
  then obtain d where d: "getDefaultLocation md = Inr d"
    using getDefaultLocation_first [of md r rs p ps] by simp
  show "\<exists>st'. getLocation md browser st = Inr st' \<and>
           (\<forall>e. GeolocationFailed e \<notin> set (debugLog st'))"
  proof (cases "findLocationInMetadata md cityName")
    case None
    with a d show ?thesis
      by (simp add: getLocation_success [of browser cityName md st] Let_def
            updateLocation_def logEvent_def)
  next
    case (Some l)
    with a show ?thesis
      by (simp add: getLocation_success [of browser cityName md st] Let_def
            updateLocation_def logEvent_def)
  qed
qed

lemma exampleMetadata_no_cebu:
  "\<forall>r \<in> set (regions (metadata exampleMetadata)). \<forall>p \<in> set (provinces r). \<forall>c \<in> set (cities p).
     normalizeString c \<noteq> normalizeString ''Cebu City''"
  by (simp add: exampleMetadata_def string_evals)

theorem no_match_goes_to_dataset_default_witness:
  "geolocation (geocodedBrowser ''Cebu City'') = Position \<and>
   reverseGeocode (geocodedBrowser ''Cebu City'') = Response True (Some (Some ''Cebu City'')) \<and>
   findLocationInMetadata exampleMetadata ''Cebu City'' = None \<and>
   lastSavedLocation (initialState (Some ''manila'')) = Some ''manila'' \<and>
   debugLog (initialState (Some ''manila'')) = [] \<and>
   getLocation exampleMetadata (geocodedBrowser ''Cebu City'') (initialState (Some ''manila'')) =
     Inr ((initialState (Some ''manila''))
            \<lparr>filterOptions :=
               \<lparr>region = ''ncr'', province = ''metro manila'', city = ''manila|metro manila'',
                category = ''All Hotlines''\<rparr>,
             isDetectingLocation := False,
             lastSavedLocation :=
               Some (JSON_stringify \<lparr>region = ''ncr'', province = ''metro manila'',
                                     city = ''manila|metro manila''\<rparr>),
             debugLog :=
               [GeolocationCoords, DetectedCity (Some ''Cebu City''), CityNotFoundUsingDefaults]\<rparr>)"
proof -
  let ?r = "\<lparr>name = ''NCR'',
             provinces = [\<lparr>Province.province = ''Metro Manila'',
                           cities = [''Manila'', ''Quezon City'']\<rparr>]\<rparr>"
  let ?p = "\<lparr>Province.province = ''Metro Manila'', cities = [''Manila'', ''Quezon City'']\<rparr>"
  have g: "geolocation (geocodedBrowser ''Cebu City'') = Position"
    "reverseGeocode (geocodedBrowser ''Cebu City'') = Response True (Some (Some ''Cebu City''))"
    by (simp_all add: geocodedBrowser_def)
  have first: "regions (metadata exampleMetadata) = ?r # []" "provinces ?r = ?p # []"
    "cities ?p = ''Manila'' # [''Quezon City'']"
    by (simp_all add: exampleMetadata_def)
  have n: "normalizeString (name ?r) = ''ncr''"
    "normalizeString (Province.province ?p) = ''metro manila''"
    "normalizeString (''Manila'' @ ''|'' @ Province.province ?p) = ''manila|metro manila''"
    by (simp_all add: string_evals)
  have i: "filterOptions (initialState (Some ''manila'')) =
      \<lparr>region = [], province = [], city = [], category = ''All Hotlines''\<rparr>"
    "debugLog (initialState (Some ''manila'')) = []"
    "lastSavedLocation (initialState (Some ''manila'')) = Some ''manila''"
    by (simp_all add: initialState_def)
  from no_match_goes_to_dataset_default
         [of "geocodedBrowser ''Cebu City''" "''Cebu City''" exampleMetadata ?r "[]" ?p "[]"
             "''Manila''" "[''Quezon City'']" "initialState (Some ''manila'')"]
       g exampleMetadata_no_cebu first
  have "getLocation exampleMetadata (geocodedBrowser ''Cebu City'') (initialState (Some ''manila'')) =
     Inr ((initialState (Some ''manila''))
            \<lparr>filterOptions :=
               \<lparr>region = ''ncr'', province = ''metro manila'', city = ''manila|metro manila'',
                category = ''All Hotlines''\<rparr>,
             isDetectingLocation := False,
             lastSavedLocation :=
               Some (JSON_stringify \<lparr>region = ''ncr'', province = ''metro manila'',
                                     city = ''manila|metro manila''\<rparr>),
             debugLog :=
               [GeolocationCoords, DetectedCity (Some ''Cebu City''), CityNotFoundUsingDefaults]\<rparr>)"
    unfolding n i by simp
  with g i(2,3) findLocationInMetadata_None [OF exampleMetadata_no_cebu] show ?thesis
    by simp
qed

section \<open>C6: a stored bare string\<close>

text \<open>
  Claim C6: when the position or the reverse-geocoding fails and \<^verbatim>\<open>JSON.parse\<close>
  throws on the stored text, the resolver returns normally: it sets the city of the filter
  to the normalised text and leaves region and province (and the store) as they were, so
  from the initial state region and province stay unset.
\<close>

theorem legacy_stored_string_sets_city_only:
  assumes "geolocation browser \<noteq> Position \<or>
           (\<forall>cityName. reverseGeocode browser \<noteq> Response True (Some (Some cityName)))"
    and "lastSavedLocation st = Some s" and "s \<noteq> []"
    and "JSON_parse browser s = None"
  shows "\<exists>st'. getLocation md browser st = Inr st' \<and>
           filterOptions st' = (filterOptions st)\<lparr>city := normalizeString s\<rparr> \<and>
           region (filterOptions st') = region (filterOptions st) \<and>
           province (filterOptions st') = province (filterOptions st) \<and>
           lastSavedLocation st' = Some s \<and>
           isDetectingLocation st' = False"
proof -
  from getLocation_failure [OF assms(1), of md st] obtain err st1 where
    g: "getLocation md browser st = loadStoredLocation md browser err st1"
    and same: "filterOptions st1 = filterOptions st" "lastSavedLocation st1 = lastSavedLocation st"
    by blast
  from same assms have "lastSavedLocation st1 = Some s" by simp
  from loadStoredLocation_legacy [OF this assms(3,4), of md err] g same assms(2)
  show ?thesis by simp
qed

theorem legacy_stored_string_sets_city_only_witness:
  "geolocation permissionDeniedBrowser = PositionFailure PERMISSION_DENIED \<and>
   lastSavedLocation (initialState (Some ''manila'')) = Some ''manila'' \<and>
   JSON_parse permissionDeniedBrowser ''manila'' = None \<and>
   map_sum id filterOptions
     (getLocation exampleMetadata permissionDeniedBrowser (initialState (Some ''manila''))) =
     Inr \<lparr>region = [], province = [], city = ''manila'', category = ''All Hotlines''\<rparr> \<and>
   map_sum id lastSavedLocation
     (getLocation exampleMetadata permissionDeniedBrowser (initialState (Some ''manila''))) =
     Inr (Some ''manila'')"
proof -
  have a: "geolocation permissionDeniedBrowser \<noteq> Position \<or>
           (\<forall>cityName. reverseGeocode permissionDeniedBrowser \<noteq> Response True (Some (Some cityName)))"
    by (simp add: permissionDeniedBrowser_def)
  have b: "lastSavedLocation (initialState (Some ''manila'')) = Some ''manila''"
    by (simp add: initialState_def)
  have c: "''manila'' \<noteq> []"
    by simp
  have d: "JSON_parse permissionDeniedBrowser ''manila'' = None"
    by (simp add: permissionDeniedBrowser_def)
  have n: "normalizeString ''manila'' = ''manila''"
    by (simp add: string_evals)
  have i: "filterOptions (initialState (Some ''manila'')) =
      \<lparr>region = [], province = [], city = [], category = ''All Hotlines''\<rparr>"
    by (simp add: initialState_def)
  from legacy_stored_string_sets_city_only [OF a b c d, of exampleMetadata] obtain st' where
    "getLocation exampleMetadata permissionDeniedBrowser (initialState (Some ''manila'')) = Inr st'"
    "filterOptions st' = (filterOptions (initialState (Some ''manila'')))\<lparr>city := normalizeString ''manila''\<rparr>"
    "lastSavedLocation st' = Some ''manila''"
    by blast
  then have "map_sum id filterOptions
     (getLocation exampleMetadata permissionDeniedBrowser (initialState (Some ''manila''))) =
     Inr \<lparr>region = [], province = [], city = ''manila'', category = ''All Hotlines''\<rparr>"
    "map_sum id lastSavedLocation
     (getLocation exampleMetadata permissionDeniedBrowser (initialState (Some ''manila''))) =
     Inr (Some ''manila'')"
    by (simp_all add: n i)
  with b d show ?thesis
    by (simp add: permissionDeniedBrowser_def)
qed

end
